theory Spec2Isabelle
  imports Complex_Main "HOL-Library.Char_ord" "HOL-Library.List_Lexorder"
    "HOL-Library.Product_Lexorder"
begin

section \<open>Python values and exceptions\<close>

text \<open>
  The exceptions the modelled code can raise. The five \<^verbatim>\<open>raise Exception(...)\<close>
  sites of \<^verbatim>\<open>cryptocompare.py\<close> get one constructor each, named after their message;
  \<open>Setter_rejected\<close> stands for the \<^verbatim>\<open>Exception\<close>/\<^verbatim>\<open>ValueError\<close> a setter of
  \<^verbatim>\<open>DataRequest\<close> raises on an argument it refuses. The others are the built-in
  exceptions of the interpreter and of the \<^verbatim>\<open>requests\<close> and \<^verbatim>\<open>pandas\<close> libraries.
\<close>

datatype py_error =
    Set_api_key
  | Onchain_daily_only
  | Not_onchain_field
  | Fields_not_available
  | Check_data_request
  | Setter_rejected
  | KeyError
  | IndexError
  | TypeError
  | NameError
  | AttributeError
  | ValueError
  | ConnectionError
  | InvalidIndexError

section \<open>The request descriptor as the fetch engine reads it\<close>

text \<open>
  \<^verbatim>\<open>DataRequest\<close> as \<^verbatim>\<open>cryptocompare.py\<close> consumes it: the attributes that file reads, with
  the types the setters let through. Dates are held as seconds since the epoch (the
  calendar forms \<^verbatim>\<open>'YYYY-MM-DD'\<close>, \<^verbatim>\<open>datetime\<close> and \<^verbatim>\<open>pd.Timestamp\<close> all denote one instant),
  \<^verbatim>\<open>None\<close> is \<open>None\<close>. \<^verbatim>\<open>pause\<close> is a float in the source; only whether it is \<^verbatim>\<open>None\<close>
  matters to the control flow, its value is passed on to \<^verbatim>\<open>sleep\<close>.
\<close>

record DataRequest =
  tickers :: "string list"
  freq :: string
  quote_ccy :: "string option"
  exch :: "string option"
  start_date :: "int option"
  end_date :: "int option"
  req_fields :: "string list"
  trials :: "int option"
  pause :: "rat option"

text \<open>The dictionary \<^verbatim>\<open>cc_data_req\<close> built by \<^verbatim>\<open>convert_data_req_params\<close>.\<close>

record cc_data_req =
  cc_tickers :: "string list"
  cc_frequency :: string
  cc_currency :: string
  cc_exchange :: string
  cc_start_date :: int
  cc_end_date :: int
  cc_fields :: "string list"
  cc_trials :: "int option"
  cc_pause :: "rat option"

text \<open>\<^verbatim>\<open>str.upper()\<close> on ASCII text.\<close>

definition upper_char :: "char \<Rightarrow> char" where
  "upper_char c =
     (case map_of (zip ''abcdefghijklmnopqrstuvwxyz'' ''ABCDEFGHIJKLMNOPQRSTUVWXYZ'') c of
        None \<Rightarrow> c
      | Some u \<Rightarrow> u)"

definition upper :: "string \<Rightarrow> string" where
  "upper s = map upper_char s"

text \<open>\<^verbatim>\<open>s[-3:]\<close>: the last three characters, the whole string when it is shorter.\<close>

definition last3 :: "string \<Rightarrow> string" where
  "last3 s = drop (length s - 3) s"

text \<open>
  Modelled from the spec: \<^verbatim>\<open>convert_datetime_to_unix_tmsp\<close> of \<^verbatim>\<open>util/convertparams.py\<close>,
  which is not among the source files. The spec has it "convert calendar dates to the
  vendor's native time encoding (seconds-since-epoch)"; dates are held as seconds since
  the epoch here, so the conversion leaves them as they are, and the literal
  \<^verbatim>\<open>'2010-01-01'\<close> is the instant 1262304000.
\<close>

definition convert_datetime_to_unix_tmsp :: "int \<Rightarrow> int" where
  "convert_datetime_to_unix_tmsp d = d"

definition date_2010_01_01 :: int where
  "date_2010_01_01 = 1262304000"

text \<open>
  \<^verbatim>\<open>convert_data_req_params\<close>. \<open>now\<close> and \<open>utcnow\<close> are the readings of
  \<^verbatim>\<open>datetime.now()\<close> and \<^verbatim>\<open>datetime.utcnow()\<close>, in seconds; seven days are 604800 seconds.
  The local \<^verbatim>\<open>start_date\<close> is assigned twice in the source: first under
  \<^verbatim>\<open>if data_req.freq[-3:] == 'min'\<close>, then by the \<^verbatim>\<open>if\<close>/\<^verbatim>\<open>else\<close> on
  \<^verbatim>\<open>data_req.start_date is None\<close>, which is a statement of its own (\<^verbatim>\<open>if\<close>, not \<^verbatim>\<open>elif\<close>).
  \<^verbatim>\<open>freq[-1]\<close> raises \<^verbatim>\<open>IndexError\<close> on the empty string.
\<close>

definition convert_data_req_params ::
  "int \<Rightarrow> int \<Rightarrow> DataRequest \<Rightarrow> py_error + cc_data_req" where
  "convert_data_req_params now utcnow data_req =
     (let tickers1 = map upper (tickers data_req) in
      if last3 (freq data_req) \<noteq> ''min'' \<and> freq data_req = [] then Inl IndexError
      else
        let frequency =
              (if last3 (freq data_req) = ''min'' then ''histominute''
               else if last (freq data_req) = CHR ''h'' then ''histohour''
               else if freq data_req = ''d'' then ''histoday''
               else ''histoday'');
            quote = upper (case quote_ccy data_req of None \<Rightarrow> ''USD'' | Some q \<Rightarrow> q);
            exchange = (case exch data_req of None \<Rightarrow> ''CCCAGG'' | Some e \<Rightarrow> e);
            start1 = (if last3 (freq data_req) = ''min'' then Some (now - 604800) else None);
            start2 = (case start_date data_req of
                        None \<Rightarrow> convert_datetime_to_unix_tmsp date_2010_01_01
                      | Some d \<Rightarrow> convert_datetime_to_unix_tmsp d);
            end2 = (case end_date data_req of
                      None \<Rightarrow> convert_datetime_to_unix_tmsp utcnow
                    | Some d \<Rightarrow> convert_datetime_to_unix_tmsp d)
        in Inr \<lparr> cc_tickers = tickers1, cc_frequency = frequency, cc_currency = quote,
                 cc_exchange = exchange, cc_start_date = start2, cc_end_date = end2,
                 cc_fields = req_fields data_req, cc_trials = trials data_req,
                 cc_pause = pause data_req \<rparr>)"

section \<open>Tables\<close>

text \<open>
  A float of a vendor response or of a table: a number, or not-a-number.
\<close>

datatype cell = Num rat | NaN

text \<open>
  One row of a price-bar page, \<^verbatim>\<open>r.json()['Data']['Data'][i]\<close>: the keys the code
  reads. \<^verbatim>\<open>time\<close> is in epoch seconds; \<^verbatim>\<open>pd.to_datetime(df['time'], unit='s')\<close> turns it
  into the instant it denotes, which is held as the same number here.
\<close>

record ohlcv_row =
  r_time :: int
  r_open :: cell
  r_high :: cell
  r_low :: cell
  r_close :: cell
  r_volumefrom :: cell

text \<open>
  A \<^verbatim>\<open>DataFrame\<close> after normalisation: its column labels and its rows, each row its index
  entry and one cell per column. The index is \<^verbatim>\<open>date\<close>, or the pair
  \<^verbatim>\<open>(date, ticker)\<close>. \<^verbatim>\<open>pd.DataFrame()\<close> has no column and no row; \<^verbatim>\<open>df.empty\<close> holds
  when either axis has length zero.
\<close>

datatype index = Date int | Date_ticker int string

record frame =
  columns :: "string list"
  rows :: "(index \<times> cell list) list"

definition DataFrame :: frame where
  "DataFrame = \<lparr> columns = [], rows = [] \<rparr>"

definition df_empty :: "frame \<Rightarrow> bool" where
  "df_empty df = (columns df = [] \<or> rows df = [])"

fun index_date :: "index \<Rightarrow> int" where
  "index_date (Date d) = d"
| "index_date (Date_ticker d t) = d"

fun is_date :: "index \<Rightarrow> bool" where
  "is_date (Date d) = True"
| "is_date (Date_ticker d t) = False"

text \<open>The order of a \<^verbatim>\<open>(date, ticker)\<close> index: the date, then the ticker.\<close>

fun index_key :: "index \<Rightarrow> int \<times> string" where
  "index_key (Date d) = (d, [])"
| "index_key (Date_ticker d t) = (d, t)"

text \<open>
  \<^verbatim>\<open>sort_index()\<close> sorts the rows by their index entries with the library's default
  routine, which is not a stable sort: rows with equal entries come out in an order of
  the routine's own, which depends on the whole column of entries. \<open>ties ks i\<close> is the
  rank the routine gives the row at position \<open>i\<close> among the rows with an equal entry,
  for the column \<open>ks\<close>; it is left open. Every way of sorting the rows by their entries
  is \<open>sort_by ties\<close> for some \<open>ties\<close> (the position at which the routine puts each
  row), and \<open>sort_by ties\<close> sorts the rows for every \<open>ties\<close>.
\<close>

definition sort_by :: "('k list \<Rightarrow> nat \<Rightarrow> nat) \<Rightarrow> ('a \<Rightarrow> 'k::linorder) \<Rightarrow> 'a list \<Rightarrow> 'a list" where
  "sort_by ties key xs =
     map snd (sort_key (\<lambda>(i, x). (key x, ties (map key xs) i)) (zip [0..<length xs] xs))"

text \<open>
  \<^verbatim>\<open>df[~df.index.duplicated()]\<close>: \<^verbatim>\<open>duplicated()\<close> marks every row whose index value has
  been seen in an earlier row, and the mask keeps the others. \<open>seen\<close> holds the index
  values met so far.
\<close>

fun drop_duplicated :: "('a \<Rightarrow> 'k) \<Rightarrow> 'k list \<Rightarrow> 'a list \<Rightarrow> 'a list" where
  "drop_duplicated key seen [] = []"
| "drop_duplicated key seen (r # rs) =
     (if key r \<in> set seen then drop_duplicated key seen rs
      else r # drop_duplicated key (key r # seen) rs)"

text \<open>
  The list \<^verbatim>\<open>['open', 'high', 'low', 'close', 'volume']\<close>, which \<^verbatim>\<open>get_fields\<close> names
  \<^verbatim>\<open>ohlcv_fields\<close> and \<^verbatim>\<open>wrangle_ohlcv_resp\<close> writes out.
\<close>

definition ohlcv_fields :: "string list" where
  "ohlcv_fields = [''open'', ''high'', ''low'', ''close'', ''volume'']"

definition ohlcv_cells :: "ohlcv_row \<Rightarrow> cell list" where
  "ohlcv_cells r = [r_open r, r_high r, r_low r, r_close r, r_volumefrom r]"

text \<open>
  \<^verbatim>\<open>wrangle_ohlcv_resp\<close>, statement by statement; \<open>ties\<close> is the order the library's
  sort gives rows with equal dates. \<open>df1\<close>: the index is set to the date and the frame
  sorted by it. The renaming of
  \<^verbatim>\<open>volumefrom\<close> to \<^verbatim>\<open>volume\<close> and the projection to the five columns change no row of
  \<open>ohlcv_row\<close>, which holds these columns only; they show in the frame built at the
  end. \<open>df2\<close>: rows with a duplicated index are removed. \<open>df3\<close>: \<^verbatim>\<open>df[df['close'] != 0]\<close>
  (not-a-number differs from zero), \<open>df4\<close>: \<^verbatim>\<open>dropna()\<close> removes every row with a
  not-a-number cell. \<open>df5\<close>, \<open>df6\<close>: the two filters on the requested dates, each under
  its \<^verbatim>\<open>is not None\<close>.
\<close>

definition wrangle_ohlcv_resp ::
  "(int list \<Rightarrow> nat \<Rightarrow> nat) \<Rightarrow> DataRequest \<Rightarrow> ohlcv_row list \<Rightarrow> frame" where
  "wrangle_ohlcv_resp ties data_req data_resp =
     (let df1 = sort_by ties r_time data_resp;
          df2 = drop_duplicated r_time [] df1;
          df3 = filter (\<lambda>r. r_close r \<noteq> Num 0) df2;
          df4 = filter (\<lambda>r. NaN \<notin> set (ohlcv_cells r)) df3;
          df5 = (case start_date data_req of
                   None \<Rightarrow> df4
                 | Some s \<Rightarrow> filter (\<lambda>r. r_time r \<ge> s) df4);
          df6 = (case end_date data_req of
                   None \<Rightarrow> df5
                 | Some e \<Rightarrow> filter (\<lambda>r. r_time r \<le> e) df5)
      in \<lparr> columns = ohlcv_fields,
           rows = map (\<lambda>r. (Date (r_time r), ohlcv_cells r)) df6 \<rparr>)"

text \<open>The rows that the four filters of \<^verbatim>\<open>wrangle_ohlcv_resp\<close> let through.\<close>

definition kept :: "DataRequest \<Rightarrow> ohlcv_row \<Rightarrow> bool" where
  "kept data_req r =
     (r_close r \<noteq> Num 0 \<and> NaN \<notin> set (ohlcv_cells r)
      \<and> (case start_date data_req of None \<Rightarrow> True | Some s \<Rightarrow> s \<le> r_time r)
      \<and> (case end_date data_req of None \<Rightarrow> True | Some e \<Rightarrow> r_time r \<le> e))"

section \<open>The vendor and the trace of effects\<close>

text \<open>
  The client object: the attributes of \<^verbatim>\<open>self\<close> that the fetch methods read.
\<close>

record CryptoCompare =
  base_url :: string
  api_key :: string
  max_obs_per_call :: int

text \<open>
  The query of one \<^verbatim>\<open>requests.get\<close> to a paged endpoint: the URL and the \<^verbatim>\<open>params\<close>
  dictionary. The on-chain endpoint takes neither \<^verbatim>\<open>tsym\<close> nor \<^verbatim>\<open>e\<close>.
\<close>

record query =
  q_url :: string
  q_fsym :: string
  q_tsym :: "string option"
  q_limit :: int
  q_e :: "string option"
  q_toTs :: int
  q_api_key :: string

text \<open>
  What one paged call comes to inside the \<^verbatim>\<open>try\<close> block. \<open>Transport_error\<close>:
  \<^verbatim>\<open>requests.get\<close> raises. \<open>Malformed\<close>: the body is not the expected JSON
  (\<^verbatim>\<open>r.json()\<close>, \<^verbatim>\<open>['Response']\<close> or \<^verbatim>\<open>['Data']['Data']\<close> raises). \<open>Status_error m\<close>: the
  body's \<^verbatim>\<open>Response\<close> is not \<^verbatim>\<open>'Success'\<close>, so the \<^verbatim>\<open>assert\<close> fails; \<open>m\<close> is its
  \<^verbatim>\<open>Message\<close>, if it has one. \<open>Page rows\<close>: success, with the rows of
  \<^verbatim>\<open>['Data']['Data']\<close>.
\<close>

datatype 'a response = Transport_error | Malformed | Status_error "string option" | Page 'a

datatype warning =
    Failed_attempt string int
  | Failed_many string string
  | Caught_exception
  | Format_changed
  | Failed_info string
  | Caught py_error

text \<open>
  Everything the code does besides computing: the calls it sends, its pauses and the
  warnings it logs, in order.
\<close>

datatype event =
    Get query
  | Get_meta string
  | Sleep rat
  | Warning warning

text \<open>
  A JSON value, for the catalog calls; a catalog call either raises in
  \<^verbatim>\<open>requests.get\<close> (\<open>No_reply\<close>), or in \<^verbatim>\<open>r.json()\<close> (\<open>Not_json\<close>), or has a JSON
  body.
\<close>

datatype json =
    JNull
  | JBool bool
  | JNum rat
  | JStr string
  | JArr "json list"
  | JObj "(string \<times> json) list"

datatype reply = No_reply | Not_json | Body json

text \<open>
  One row of an on-chain page: \<^verbatim>\<open>id\<close>, \<^verbatim>\<open>time\<close>, \<^verbatim>\<open>symbol\<close> and the metric cells by
  name.
\<close>

record onchain_row =
  oc_id :: int
  oc_time :: int
  oc_symbol :: string
  oc_metrics :: "(string \<times> cell) list"

text \<open>
  The world outside: the vendor's answer to each call and the two clocks. Each is a
  function of the number of effects so far (the length of the trace), so answers may
  change from call to call, and of the call's query or URL.
  \<open>cryptocompare_base_url\<close> is the credential \<^verbatim>\<open>data_cred.cryptocompare_base_url\<close>.
  \<open>date_ties\<close> and \<open>pair_ties\<close> are the orders the library's sort gives rows with
  equal index entries, for an index of dates and for one of \<^verbatim>\<open>(date, ticker)\<close> pairs.
\<close>

record env =
  ohlcv_api :: "nat \<Rightarrow> query \<Rightarrow> ohlcv_row list response"
  onchain_api :: "nat \<Rightarrow> query \<Rightarrow> onchain_row list response"
  meta_api :: "nat \<Rightarrow> string \<Rightarrow> reply"
  cryptocompare_base_url :: string
  clock_now :: "nat \<Rightarrow> int"
  clock_utcnow :: "nat \<Rightarrow> int"
  date_ties :: "int list \<Rightarrow> nat \<Rightarrow> nat"
  pair_ties :: "(int \<times> string) list \<Rightarrow> nat \<Rightarrow> nat"

text \<open>
  \<^verbatim>\<open>df.sort_index()\<close> on a normalised frame. An index of dates is sorted by date, an
  index of \<^verbatim>\<open>(date, ticker)\<close> pairs by date and then ticker; an index that holds entries
  of both kinds cannot be ordered, and the call raises \<^verbatim>\<open>TypeError\<close>.
\<close>

definition sort_pairs :: "env \<Rightarrow> (index \<times> cell list) list \<Rightarrow> (index \<times> cell list) list" where
  "sort_pairs E rs = sort_by (pair_ties E) (\<lambda>r. index_key (fst r)) rs"

definition sort_index :: "env \<Rightarrow> frame \<Rightarrow> py_error + frame" where
  "sort_index E df =
     (if list_all (\<lambda>r. is_date (fst r)) (rows df)
      then Inr (df\<lparr>rows := sort_by (date_ties E) (\<lambda>r. index_date (fst r)) (rows df)\<rparr>)
      else if list_all (\<lambda>r. \<not> is_date (fst r)) (rows df)
      then Inr (df\<lparr>rows := sort_pairs E (rows df)\<rparr>)
      else Inl TypeError)"

section \<open>The paginated fetch of price bars\<close>

definition ohlcv_query :: "CryptoCompare \<Rightarrow> cc_data_req \<Rightarrow> string \<Rightarrow> int \<Rightarrow> query" where
  "ohlcv_query self cc ticker to_ts =
     \<lparr> q_url = base_url self @ ''v2/'' @ cc_frequency cc, q_fsym = ticker,
       q_tsym = Some (cc_currency cc), q_limit = max_obs_per_call self,
       q_e = Some (cc_exchange cc), q_toTs = to_ts, q_api_key = api_key self \<rparr>"

text \<open>
  The \<^verbatim>\<open>while attempts < cc_data_req['trials']\<close> loop of \<^verbatim>\<open>fetch_ohlcv\<close> for one ticker.
  Its state is the local \<^verbatim>\<open>end_date\<close> (here \<open>to_ts\<close>: the name \<open>end_date\<close> is the
  request's attribute), \<^verbatim>\<open>df0\<close> and \<^verbatim>\<open>attempts\<close>, and the trace \<open>tr\<close>. The first
  argument bounds the number of iterations: the loop need not end (a vendor that answers
  every call with a full page keeps it running), and \<open>None\<close> is the run that has not
  ended within the bound. The result is the final \<^verbatim>\<open>df0\<close>, or the exception that leaves
  the loop uncaught.

  \<^item> \<^verbatim>\<open>attempts < None\<close> raises \<^verbatim>\<open>TypeError\<close>.
  \<^item> \<^verbatim>\<open>except AssertionError\<close>: \<^verbatim>\<open>attempts += 1\<close>, \<^verbatim>\<open>sleep\<close> (\<^verbatim>\<open>TypeError\<close> on \<^verbatim>\<open>None\<close>, raised
    inside the handler, so uncaught), a warning, and at \<^verbatim>\<open>attempts == 3\<close> a second warning
    (reading \<^verbatim>\<open>r.json()['Message']\<close>: \<^verbatim>\<open>KeyError\<close> without one) and \<^verbatim>\<open>break\<close>.
  \<^item> \<^verbatim>\<open>except Exception\<close>: two warnings and \<^verbatim>\<open>break\<close>.
  \<^item> On success the page is appended and the loop breaks when
    \<^verbatim>\<open>len(data) < max_obs_per_call + 1\<close>, or \<^verbatim>\<open>data.close[0]\<close> is zero or not-a-number
    (\<^verbatim>\<open>data.close[0]\<close> raises in an empty page, inside the \<^verbatim>\<open>try\<close>); otherwise
    \<^verbatim>\<open>end_date = data.time[0]\<close> and \<^verbatim>\<open>sleep\<close> (a \<^verbatim>\<open>TypeError\<close> here is caught by
    \<^verbatim>\<open>except Exception\<close>).
\<close>

fun ohlcv_loop ::
  "nat \<Rightarrow> env \<Rightarrow> CryptoCompare \<Rightarrow> cc_data_req \<Rightarrow> string \<Rightarrow> int \<Rightarrow> ohlcv_row list \<Rightarrow> int
   \<Rightarrow> event list \<Rightarrow> ((py_error + ohlcv_row list) \<times> event list) option" where
  "ohlcv_loop 0 E self cc ticker to_ts df0 attempts tr = None"
| "ohlcv_loop (Suc fuel) E self cc ticker to_ts df0 attempts tr =
     (case cc_trials cc of
        None \<Rightarrow> Some (Inl TypeError, tr)
      | Some n \<Rightarrow>
          if \<not> attempts < n then Some (Inr df0, tr)
          else
            let q = ohlcv_query self cc ticker to_ts;
                tr1 = tr @ [Get q];
                caught = [Warning Caught_exception, Warning Format_changed]
            in case ohlcv_api E (length tr) q of
                 Status_error msg \<Rightarrow>
                   (case cc_pause cc of
                      None \<Rightarrow> Some (Inl TypeError, tr1)
                    | Some p \<Rightarrow>
                        let tr2 = tr1 @ [Sleep p, Warning (Failed_attempt ticker (attempts + 1))]
                        in if attempts + 1 = 3 then
                             (case msg of
                                None \<Rightarrow> Some (Inl KeyError, tr2)
                              | Some m \<Rightarrow>
                                  Some (Inr df0, tr2 @ [Warning (Failed_many ticker m)]))
                           else ohlcv_loop fuel E self cc ticker to_ts df0 (attempts + 1) tr2)
               | Transport_error \<Rightarrow> Some (Inr df0, tr1 @ caught)
               | Malformed \<Rightarrow> Some (Inr df0, tr1 @ caught)
               | Page data \<Rightarrow>
                   if int (length data) < max_obs_per_call self + 1
                   then Some (Inr (df0 @ data), tr1)
                   else
                     (case data of
                        [] \<Rightarrow> Some (Inr (df0 @ data), tr1 @ caught)
                      | r # rest \<Rightarrow>
                          if r_close r = Num 0 \<or> r_close r = NaN
                          then Some (Inr (df0 @ data), tr1)
                          else
                            (case cc_pause cc of
                               None \<Rightarrow> Some (Inr (df0 @ data), tr1 @ caught)
                             | Some p \<Rightarrow>
                                 ohlcv_loop fuel E self cc ticker (r_time r) (df0 @ data)
                                   attempts (tr1 @ [Sleep p]))))"

text \<open>
  The trace of the failed attempts number \<open>a + 1\<close> to \<open>n\<close> at one query: each the
  call, the pause and the warning with the attempt's number.
\<close>

definition failed_attempts :: "query \<Rightarrow> rat \<Rightarrow> string \<Rightarrow> int \<Rightarrow> int \<Rightarrow> event list" where
  "failed_attempts q p ticker a n =
     concat (map (\<lambda>i. [Get q, Sleep p, Warning (Failed_attempt ticker i)]) [a + 1..n])"

text \<open>
  The second warning of the handler, logged when the third attempt has failed, for an
  answer with the message \<open>m\<close>.
\<close>

definition last_warning :: "string \<Rightarrow> int \<Rightarrow> int \<Rightarrow> string \<Rightarrow> event list" where
  "last_warning ticker a n m =
     (if a < n \<and> n = 3 then [Warning (Failed_many ticker m)] else [])"

text \<open>
  \<^verbatim>\<open>pd.concat([df, df1])\<close>: the rows of both frames, one after the other, over the union of
  their columns; a cell a frame has no column for is not-a-number.
\<close>

definition reindex_columns :: "string list \<Rightarrow> frame \<Rightarrow> (index \<times> cell list) list" where
  "reindex_columns cols df =
     map (\<lambda>(i, cs). (i, map (\<lambda>c. case map_of (zip (columns df) cs) c of
                                      None \<Rightarrow> NaN | Some v \<Rightarrow> v) cols))
       (rows df)"

definition concat_rows :: "frame \<Rightarrow> frame \<Rightarrow> frame" where
  "concat_rows df df1 =
     (let cols = columns df @ filter (\<lambda>c. c \<notin> set (columns df)) (columns df1)
      in \<lparr> columns = cols, rows = reindex_columns cols df @ reindex_columns cols df1 \<rparr>)"

text \<open>
  \<^verbatim>\<open>df1['ticker'] = ticker\<close> followed by
  \<^verbatim>\<open>df1.reset_index().set_index(['date', 'ticker']).sort_index()\<close>.
\<close>

definition set_index_date_ticker :: "env \<Rightarrow> string \<Rightarrow> frame \<Rightarrow> frame" where
  "set_index_date_ticker E ticker df1 =
     df1\<lparr>rows := sort_pairs E (map (\<lambda>(i, cs). (Date_ticker (index_date i) ticker, cs)) (rows df1))\<rparr>"

text \<open>
  The \<^verbatim>\<open>for ticker in cc_data_req['tickers']\<close> loop of \<^verbatim>\<open>fetch_ohlcv\<close>; \<open>df\<close> is the frame
  gathered so far. \<^verbatim>\<open>df0.empty\<close> holds when no row was gathered for the ticker.
\<close>

fun ohlcv_tickers ::
  "nat \<Rightarrow> env \<Rightarrow> CryptoCompare \<Rightarrow> DataRequest \<Rightarrow> cc_data_req \<Rightarrow> string list \<Rightarrow> frame
   \<Rightarrow> event list \<Rightarrow> ((py_error + frame) \<times> event list) option" where
  "ohlcv_tickers fuel E self data_req cc [] df tr = Some (Inr df, tr)"
| "ohlcv_tickers fuel E self data_req cc (ticker # rest) df tr =
     (case ohlcv_loop fuel E self cc ticker (cc_end_date cc) [] 0 tr of
        None \<Rightarrow> None
      | Some (Inl err, tr1) \<Rightarrow> Some (Inl err, tr1)
      | Some (Inr df0, tr1) \<Rightarrow>
          if df0 \<noteq> [] then
            let df1 = wrangle_ohlcv_resp (date_ties E) data_req df0;
                df1 = (if length (tickers data_req) > 1
                       then set_index_date_ticker E ticker df1 else df1)
            in ohlcv_tickers fuel E self data_req cc rest (concat_rows df df1) tr1
          else ohlcv_tickers fuel E self data_req cc rest df tr1)"

definition fetch_ohlcv ::
  "nat \<Rightarrow> env \<Rightarrow> CryptoCompare \<Rightarrow> DataRequest \<Rightarrow> event list
   \<Rightarrow> ((py_error + frame) \<times> event list) option" where
  "fetch_ohlcv fuel E self data_req tr =
     (case convert_data_req_params (clock_now E (length tr)) (clock_utcnow E (length tr)) data_req of
        Inl err \<Rightarrow> Some (Inl err, tr)
      | Inr cc \<Rightarrow> ohlcv_tickers fuel E self data_req cc (cc_tickers cc) DataFrame tr)"

section \<open>The field catalog\<close>

text \<open>\<^verbatim>\<open>j[k]\<close> on a parsed JSON value.\<close>

definition py_getitem :: "json \<Rightarrow> string \<Rightarrow> py_error + json" where
  "py_getitem j k =
     (case j of
        JObj kvs \<Rightarrow> (case map_of kvs k of None \<Rightarrow> Inl KeyError | Some v \<Rightarrow> Inr v)
      | _ \<Rightarrow> Inl TypeError)"

text \<open>
  The opening every \<^verbatim>\<open>get_*\<close> method shares, up to its first use of the payload:
  \<^verbatim>\<open>
  try:
      r = requests.get(url, params=params)
      assert r.json()['Response'] == 'Success'
  except AssertionError as e:
      logging.warning(f"Failed to get ... info.")
  ... r.json()['Data'] ...
  \<close>
  Only the failed \<^verbatim>\<open>assert\<close> is caught; after the warning the method goes on to read
  \<^verbatim>\<open>r.json()['Data']\<close>.
\<close>

definition get_data :: "env \<Rightarrow> string \<Rightarrow> string \<Rightarrow> event list \<Rightarrow> (py_error + json) \<times> event list" where
  "get_data E url what tr =
     (let tr1 = tr @ [Get_meta url]
      in case meta_api E (length tr) url of
           No_reply \<Rightarrow> (Inl ConnectionError, tr1)
         | Not_json \<Rightarrow> (Inl ValueError, tr1)
         | Body j \<Rightarrow>
             (case py_getitem j ''Response'' of
                Inl err \<Rightarrow> (Inl err, tr1)
              | Inr resp \<Rightarrow>
                  let tr2 = (if resp = JStr ''Success'' then tr1
                             else tr1 @ [Warning (Failed_info what)])
                  in (case py_getitem j ''Data'' of
                        Inl err \<Rightarrow> (Inl err, tr2)
                      | Inr d \<Rightarrow> (Inr d, tr2))))"

text \<open>
  \<^verbatim>\<open>get_fields\<close>: the five price fields, then \<^verbatim>\<open>list(data_resp.keys())[4:]\<close>.
\<close>

definition get_fields :: "env \<Rightarrow> event list \<Rightarrow> (py_error + string list) \<times> event list" where
  "get_fields E tr =
     (case get_data E (cryptocompare_base_url E @ ''blockchain/latest?fsym=BTC'')
             ''on-chain data'' tr of
        (Inl err, tr1) \<Rightarrow> (Inl err, tr1)
      | (Inr data_resp, tr1) \<Rightarrow>
          (case data_resp of
             JObj kvs \<Rightarrow> (Inr (ohlcv_fields @ drop 4 (map fst kvs)), tr1)
           | _ \<Rightarrow> (Inl AttributeError, tr1)))"

section \<open>The paginated fetch of on-chain data\<close>

definition onchain_query :: "CryptoCompare \<Rightarrow> string \<Rightarrow> int \<Rightarrow> query" where
  "onchain_query self ticker to_ts =
     \<lparr> q_url = base_url self @ ''blockchain/histo/day?'', q_fsym = ticker,
       q_tsym = None, q_limit = max_obs_per_call self,
       q_e = None, q_toTs = to_ts, q_api_key = api_key self \<rparr>"

text \<open>
  \<^verbatim>\<open>all(data.iloc[0] == 0)\<close> and \<^verbatim>\<open>all(data.iloc[0].astype(str) == 'nan')\<close> range over every
  column of the first row, \<^verbatim>\<open>symbol\<close>, \<^verbatim>\<open>id\<close> and \<^verbatim>\<open>time\<close> included. The symbol is a
  string, which is never equal to the number zero; \<^verbatim>\<open>id\<close> and \<^verbatim>\<open>time\<close> are integers,
  whose text is never \<^verbatim>\<open>'nan'\<close>.
\<close>

definition iloc0_all_zero :: "onchain_row \<Rightarrow> bool" where
  "iloc0_all_zero r =
     (oc_id r = 0 \<and> oc_time r = 0 \<and> False \<and> list_all (\<lambda>(k, v). v = Num 0) (oc_metrics r))"

definition iloc0_all_nan :: "onchain_row \<Rightarrow> bool" where
  "iloc0_all_nan r =
     (False \<and> False \<and> oc_symbol r = ''nan'' \<and> list_all (\<lambda>(k, v). v = NaN) (oc_metrics r))"

text \<open>The \<^verbatim>\<open>while\<close> loop of \<^verbatim>\<open>fetch_onchain\<close>, as \<open>ohlcv_loop\<close> above.\<close>

fun onchain_loop ::
  "nat \<Rightarrow> env \<Rightarrow> CryptoCompare \<Rightarrow> cc_data_req \<Rightarrow> string \<Rightarrow> int \<Rightarrow> onchain_row list \<Rightarrow> int
   \<Rightarrow> event list \<Rightarrow> ((py_error + onchain_row list) \<times> event list) option" where
  "onchain_loop 0 E self cc ticker to_ts df0 attempts tr = None"
| "onchain_loop (Suc fuel) E self cc ticker to_ts df0 attempts tr =
     (case cc_trials cc of
        None \<Rightarrow> Some (Inl TypeError, tr)
      | Some n \<Rightarrow>
          if \<not> attempts < n then Some (Inr df0, tr)
          else
            let q = onchain_query self ticker to_ts;
                tr1 = tr @ [Get q];
                caught = [Warning Caught_exception, Warning Format_changed]
            in case onchain_api E (length tr) q of
                 Status_error msg \<Rightarrow>
                   (case cc_pause cc of
                      None \<Rightarrow> Some (Inl TypeError, tr1)
                    | Some p \<Rightarrow>
                        let tr2 = tr1 @ [Sleep p, Warning (Failed_attempt ticker (attempts + 1))]
                        in if attempts + 1 = 3 then
                             (case msg of
                                None \<Rightarrow> Some (Inl KeyError, tr2)
                              | Some m \<Rightarrow>
                                  Some (Inr df0, tr2 @ [Warning (Failed_many ticker m)]))
                           else onchain_loop fuel E self cc ticker to_ts df0 (attempts + 1) tr2)
               | Transport_error \<Rightarrow> Some (Inr df0, tr1 @ caught)
               | Malformed \<Rightarrow> Some (Inr df0, tr1 @ caught)
               | Page data \<Rightarrow>
                   if int (length data) < max_obs_per_call self + 1
                   then Some (Inr (df0 @ data), tr1)
                   else
                     (case data of
                        [] \<Rightarrow> Some (Inr (df0 @ data), tr1 @ caught)
                      | r # rest \<Rightarrow>
                          if iloc0_all_zero r \<or> iloc0_all_nan r
                          then Some (Inr (df0 @ data), tr1)
                          else
                            (case cc_pause cc of
                               None \<Rightarrow> Some (Inr (df0 @ data), tr1 @ caught)
                             | Some p \<Rightarrow>
                                 onchain_loop fuel E self cc ticker (oc_time r) (df0 @ data)
                                   attempts (tr1 @ [Sleep p]))))"

text \<open>
  \<^verbatim>\<open>wrangle_onchain_resp\<close>. The frame built from the rows has one column per key met in
  a row, in the order of first appearance; after \<^verbatim>\<open>time\<close> has become the index and
  \<^verbatim>\<open>symbol\<close> (renamed \<^verbatim>\<open>ticker\<close>) its second level, and \<^verbatim>\<open>id\<close> is dropped, the metric
  columns remain. The frame is sorted by date, rows with a duplicated date are removed,
  the two date filters applied, and the frame sorted by \<^verbatim>\<open>(date, ticker)\<close>;
  \<^verbatim>\<open>astype(float)\<close> changes no cell.
\<close>

definition metric_columns :: "onchain_row list \<Rightarrow> string list" where
  "metric_columns rs = drop_duplicated (\<lambda>c. c) [] (concat (map (\<lambda>r. map fst (oc_metrics r)) rs))"

definition wrangle_onchain_resp :: "env \<Rightarrow> DataRequest \<Rightarrow> onchain_row list \<Rightarrow> frame" where
  "wrangle_onchain_resp E data_req data_resp =
     (let cols = metric_columns data_resp;
          df1 = sort_by (date_ties E) oc_time data_resp;
          df2 = drop_duplicated oc_time [] df1;
          df3 = (case start_date data_req of
                   None \<Rightarrow> df2
                 | Some s \<Rightarrow> filter (\<lambda>r. oc_time r \<ge> s) df2);
          df4 = (case end_date data_req of
                   None \<Rightarrow> df3
                 | Some e \<Rightarrow> filter (\<lambda>r. oc_time r \<le> e) df3)
      in \<lparr> columns = cols,
           rows = sort_pairs E
                    (map (\<lambda>r. (Date_ticker (oc_time r) (oc_symbol r),
                               map (\<lambda>c. case map_of (oc_metrics r) c of
                                            None \<Rightarrow> NaN | Some v \<Rightarrow> v) cols)) df4) \<rparr>)"

fun onchain_tickers ::
  "nat \<Rightarrow> env \<Rightarrow> CryptoCompare \<Rightarrow> DataRequest \<Rightarrow> cc_data_req \<Rightarrow> string list \<Rightarrow> frame
   \<Rightarrow> event list \<Rightarrow> ((py_error + frame) \<times> event list) option" where
  "onchain_tickers fuel E self data_req cc [] df tr = Some (Inr df, tr)"
| "onchain_tickers fuel E self data_req cc (ticker # rest) df tr =
     (case onchain_loop fuel E self cc ticker (cc_end_date cc) [] 0 tr of
        None \<Rightarrow> None
      | Some (Inl err, tr1) \<Rightarrow> Some (Inl err, tr1)
      | Some (Inr df0, tr1) \<Rightarrow>
          if df0 \<noteq> [] then
            onchain_tickers fuel E self data_req cc rest
              (concat_rows df (wrangle_onchain_resp E data_req df0)) tr1
          else onchain_tickers fuel E self data_req cc rest df tr1)"

text \<open>
  \<^verbatim>\<open>fetch_onchain\<close>: the two checks, each a \<^verbatim>\<open>raise\<close>, stand before the loop over the
  tickers; the second reads the catalog with a call of its own.
\<close>

definition fetch_onchain ::
  "nat \<Rightarrow> env \<Rightarrow> CryptoCompare \<Rightarrow> DataRequest \<Rightarrow> event list
   \<Rightarrow> ((py_error + frame) \<times> event list) option" where
  "fetch_onchain fuel E self data_req tr =
     (case convert_data_req_params (clock_now E (length tr)) (clock_utcnow E (length tr)) data_req of
        Inl err \<Rightarrow> Some (Inl err, tr)
      | Inr cc \<Rightarrow>
          if cc_frequency cc \<noteq> ''histoday'' then Some (Inl Onchain_daily_only, tr)
          else
            (case get_fields E tr of
               (Inl err, tr1) \<Rightarrow> Some (Inl err, tr1)
             | (Inr fields_list, tr1) \<Rightarrow>
                 let onchain_list = drop 5 fields_list
                 in if \<not> list_ex (\<lambda>i. i \<in> set onchain_list) (cc_fields cc)
                    then Some (Inl Not_onchain_field, tr1)
                    else onchain_tickers fuel E self data_req cc (cc_tickers cc) DataFrame tr1))"

section \<open>The router\<close>

text \<open>
  \<^verbatim>\<open>pd.concat([df, df0], axis=1)\<close>: the columns of both frames side by side, the rows
  aligned on the index. Frames with neither row nor column are left out of a
  concatenation that has another frame. Rows are aligned by equality of their index
  entries (an outer join: a row one frame lacks is filled with not-a-number); when the
  two indexes differ, \<^verbatim>\<open>pandas\<close> refuses to align an index with a repeated entry.
\<close>

definition no_shape :: "frame \<Rightarrow> bool" where
  "no_shape df = (columns df = [] \<and> rows df = [])"

definition cells_at :: "frame \<Rightarrow> index \<Rightarrow> cell list" where
  "cells_at df i =
     (case map_of (rows df) i of
        None \<Rightarrow> replicate (length (columns df)) NaN
      | Some cs \<Rightarrow> cs)"

definition concat_columns :: "frame \<Rightarrow> frame \<Rightarrow> py_error + frame" where
  "concat_columns df df0 =
     (if no_shape df0 then Inr df
      else if no_shape df then Inr df0
      else
        let k = map fst (rows df); k0 = map fst (rows df0)
        in if k = k0 then
             Inr \<lparr> columns = columns df @ columns df0,
                   rows = map (\<lambda>(r, r0). (fst r, snd r @ snd r0)) (zip (rows df) (rows df0)) \<rparr>
           else if \<not> (distinct k \<and> distinct k0) then Inl InvalidIndexError
           else
             Inr \<lparr> columns = columns df @ columns df0,
                   rows = map (\<lambda>i. (i, cells_at df i @ cells_at df0 i))
                            (k @ filter (\<lambda>i. i \<notin> set k) k0) \<rparr>)"

text \<open>
  \<^verbatim>\<open>df.loc[:, fields]\<close>: the columns with the listed labels, in the listed order;
  \<^verbatim>\<open>KeyError\<close> when a label is not a column of the frame.
\<close>

definition loc_columns :: "string list \<Rightarrow> frame \<Rightarrow> py_error + frame" where
  "loc_columns labels df =
     (if \<not> list_all (\<lambda>l. l \<in> set (columns df)) labels then Inl KeyError
      else
        Inr \<lparr> columns = concat (map (\<lambda>l. filter (\<lambda>c. c = l) (columns df)) labels),
              rows = map (\<lambda>(i, cs).
                        (i, concat (map (\<lambda>l. map snd (filter (\<lambda>(c, v). c = l)
                                                     (zip (columns df) cs))) labels)))
                       (rows df) \<rparr>)"

text \<open>
  The body of each \<^verbatim>\<open>try\<close> of \<^verbatim>\<open>fetch_data\<close>, with its \<^verbatim>\<open>except Exception\<close>: the fetch,
  then the concatenation onto \<open>df\<close>; an exception of either is logged and \<open>df\<close> stays
  as it was.
\<close>

definition try_concat ::
  "frame \<Rightarrow> ((py_error + frame) \<times> event list) option \<Rightarrow> (frame \<times> event list) option" where
  "try_concat df fetched =
     (case fetched of
        None \<Rightarrow> None
      | Some (Inl err, tr) \<Rightarrow> Some (df, tr @ [Warning (Caught err)])
      | Some (Inr df0, tr) \<Rightarrow>
          (case concat_columns df df0 of
             Inl err \<Rightarrow> Some (df, tr @ [Warning (Caught err)])
           | Inr df' \<Rightarrow> Some (df', tr)))"

text \<open>
  The two \<^verbatim>\<open>try\<close> blocks of \<^verbatim>\<open>fetch_data\<close>, each under its \<^verbatim>\<open>if any(...)\<close>: the frame
  they leave in \<^verbatim>\<open>df\<close>, starting from \<^verbatim>\<open>pd.DataFrame()\<close>.
\<close>

definition gather ::
  "nat \<Rightarrow> env \<Rightarrow> CryptoCompare \<Rightarrow> DataRequest \<Rightarrow> cc_data_req \<Rightarrow> string list \<Rightarrow> event list
   \<Rightarrow> (frame \<times> event list) option" where
  "gather fuel E self data_req cc fields_list tr1 =
     (let ohlcv_list = take 5 fields_list;
          onchain_list = drop 5 fields_list
      in case (if list_ex (\<lambda>i. i \<in> set ohlcv_list) (cc_fields cc)
               then try_concat DataFrame (fetch_ohlcv fuel E self data_req tr1)
               else Some (DataFrame, tr1)) of
           None \<Rightarrow> None
         | Some (df, tr2) \<Rightarrow>
             if list_ex (\<lambda>i. i \<in> set onchain_list) (cc_fields cc)
             then try_concat df (fetch_onchain fuel E self data_req tr2)
             else Some (df, tr2))"

text \<open>
  \<^verbatim>\<open>fetch_data\<close>. The translation and the catalog call stand outside any \<^verbatim>\<open>try\<close>, as do
  the three steps after the two fetches: the test of \<^verbatim>\<open>df.empty\<close>, the projection to the
  requested fields and the sorting (once more when more than one ticker is requested).
\<close>

definition fetch_data ::
  "nat \<Rightarrow> env \<Rightarrow> CryptoCompare \<Rightarrow> DataRequest \<Rightarrow> event list
   \<Rightarrow> ((py_error + frame) \<times> event list) option" where
  "fetch_data fuel E self data_req tr =
     (case convert_data_req_params (clock_now E (length tr)) (clock_utcnow E (length tr)) data_req of
        Inl err \<Rightarrow> Some (Inl err, tr)
      | Inr cc \<Rightarrow>
          (case get_fields E tr of
             (Inl err, tr1) \<Rightarrow> Some (Inl err, tr1)
           | (Inr fields_list, tr1) \<Rightarrow>
               if \<not> list_all (\<lambda>i. i \<in> set fields_list) (cc_fields cc)
               then Some (Inl Fields_not_available, tr1)
               else
                 (case gather fuel E self data_req cc fields_list tr1 of
                    None \<Rightarrow> None
                  | Some (df, tr3) \<Rightarrow>
                      if df_empty df then Some (Inl Check_data_request, tr3)
                      else
                        (case loc_columns (cc_fields cc) df of
                           Inl err \<Rightarrow> Some (Inl err, tr3)
                         | Inr df \<Rightarrow>
                             (case (if length (tickers data_req) > 1
                                    then sort_index E df else Inr df) of
                                Inl err \<Rightarrow> Some (Inl err, tr3)
                              | Inr df \<Rightarrow>
                                  (case sort_index E df of
                                     Inl err \<Rightarrow> Some (Inl err, tr3)
                                   | Inr df \<Rightarrow> Some (Inr df, tr3)))))))"

text \<open>The queries of the paged calls in a trace, in order.\<close>

fun paged_calls :: "event list \<Rightarrow> query list" where
  "paged_calls [] = []"
| "paged_calls (Get q # tr) = q # paged_calls tr"
| "paged_calls (ev # tr) = paged_calls tr"

text \<open>
  What a kind-specific fetch comes to, for the router: it yields data when it returns a
  frame that is not empty, and nothing when it raises or returns \<^verbatim>\<open>pd.DataFrame()\<close> as
  it was created (no ticker gathered a row). \<open>caught_warning\<close> is the warning the router
  logs for a fetch that raised.
\<close>

definition yields_data :: "py_error + frame \<Rightarrow> bool" where
  "yields_data r = (case r of Inl err \<Rightarrow> False | Inr df \<Rightarrow> \<not> df_empty df)"

definition yields_nothing :: "py_error + frame \<Rightarrow> bool" where
  "yields_nothing r = (case r of Inl err \<Rightarrow> True | Inr df \<Rightarrow> no_shape df)"

definition caught_warning :: "py_error + frame \<Rightarrow> event list" where
  "caught_warning r = (case r of Inl err \<Rightarrow> [Warning (Caught err)] | Inr df \<Rightarrow> [])"

section \<open>Construction of the client\<close>

text \<open>
  The index of \<^verbatim>\<open>pd.DataFrame(data).T\<close>, that is the column labels of
  \<^verbatim>\<open>pd.DataFrame(data)\<close>, or the exception of the constructor.
  \<^item> A dictionary gives one column per key. The constructor raises \<^verbatim>\<open>ValueError\<close> when
    the dictionary is not empty and every value is a scalar, when values that are lists
    differ in length, and when it holds both a list and a dictionary.
  \<^item> A list of dictionaries gives one column per key met in an element, in the order of
    first appearance; a list of lists one numbered column per position of the longest;
    a list of scalars the single column 0; the empty list none. A list that mixes these
    kinds is taken as refused with \<^verbatim>\<open>ValueError\<close>.
  \<^item> \<^verbatim>\<open>None\<close> gives the frame without columns; a string, a number or a truth value is
    refused with \<^verbatim>\<open>ValueError\<close>.
\<close>

fun is_dict :: "json \<Rightarrow> bool" where
  "is_dict (JObj kvs) = True"
| "is_dict j = False"

fun is_array :: "json \<Rightarrow> bool" where
  "is_array (JArr xs) = True"
| "is_array j = False"

fun dict_items :: "json \<Rightarrow> (string \<times> json) list" where
  "dict_items (JObj kvs) = kvs"
| "dict_items j = []"

fun array_items :: "json \<Rightarrow> json list" where
  "array_items (JArr xs) = xs"
| "array_items j = []"

definition frame_T_index :: "json \<Rightarrow> py_error + json list" where
  "frame_T_index d =
     (case d of
        JObj kvs \<Rightarrow>
          let vs = map snd kvs;
              lengths = map (\<lambda>v. length (array_items v)) (filter is_array vs)
          in if kvs = [] then Inr []
             else if \<not> list_ex is_dict vs \<and> \<not> list_ex is_array vs then Inl ValueError
             else if list_ex (\<lambda>n. n \<noteq> hd lengths) lengths then Inl ValueError
             else if list_ex is_dict vs \<and> list_ex is_array vs then Inl ValueError
             else Inr (map (\<lambda>kv. JStr (fst kv)) kvs)
      | JArr xs \<Rightarrow>
          if xs = [] then Inr []
          else if list_all is_dict xs
          then Inr (map JStr (drop_duplicated (\<lambda>c. c) []
                                (concat (map (\<lambda>x. map fst (dict_items x)) xs))))
          else if list_all is_array xs
          then Inr (map (\<lambda>n. JNum (of_nat n))
                      [0..<foldr max (map (\<lambda>x. length (array_items x)) xs) 0])
          else if \<not> list_ex is_dict xs \<and> \<not> list_ex is_array xs then Inr [JNum 0]
          else Inl ValueError
      | JNull \<Rightarrow> Inr []
      | _ \<Rightarrow> Inl ValueError)"

text \<open>
  What a \<^verbatim>\<open>get_*\<close> method returns: the list asked for with \<^verbatim>\<open>as_list=True\<close>, or the frame,
  held as the payload it was built from.
\<close>

datatype listing = As_list "json list" | As_frame json

definition get_assets :: "env \<Rightarrow> bool \<Rightarrow> event list \<Rightarrow> (py_error + listing) \<times> event list" where
  "get_assets E as_list tr =
     (case get_data E (cryptocompare_base_url E @ ''all/coinlist'') ''asset'' tr of
        (Inl err, tr1) \<Rightarrow> (Inl err, tr1)
      | (Inr d, tr1) \<Rightarrow>
          (case frame_T_index d of
             Inl err \<Rightarrow> (Inl err, tr1)
           | Inr idx \<Rightarrow> (Inr (if as_list then As_list idx else As_frame d), tr1)))"

definition get_indexes :: "env \<Rightarrow> bool \<Rightarrow> event list \<Rightarrow> (py_error + listing) \<times> event list" where
  "get_indexes E as_list tr =
     (case get_data E (cryptocompare_base_url E @ ''index/list'') ''index'' tr of
        (Inl err, tr1) \<Rightarrow> (Inl err, tr1)
      | (Inr d, tr1) \<Rightarrow>
          (case frame_T_index d of
             Inl err \<Rightarrow> (Inl err, tr1)
           | Inr idx \<Rightarrow> (Inr (if as_list then As_list idx else As_frame d), tr1)))"

text \<open>
  \<^verbatim>\<open>get_markets\<close>: after the shared opening,
  \<^verbatim>\<open>for asset in data_resp['pairs']: mkts_dict[asset] = data_resp['pairs'][asset]['tsyms']\<close>.
  Over a dictionary the loop runs through the keys. Over a list it runs through the
  elements, and \<^verbatim>\<open>pairs[asset]\<close> takes the element as a position: \<^verbatim>\<open>TypeError\<close> unless it
  is an integer (a whole number, or a truth value; \<open>json\<close> does not tell a whole
  number written with a fraction part from an integer, and both are taken as integers
  here), \<^verbatim>\<open>IndexError\<close> when it is out of range; the element found there is then read at
  \<^verbatim>\<open>'tsyms'\<close>. The loop over a list ends without an exception (\<open>None\<close> below) only
  when the list is empty, and the dictionary returned is then empty: an element taken
  as a position must point at a dictionary, which is an element and no position. Over a
  string the loop runs through the characters, and indexing the string with one raises
  \<^verbatim>\<open>TypeError\<close>; anything else cannot be looped over.
\<close>

fun markets_of :: "(string \<times> json) list \<Rightarrow> py_error + (string \<times> json) list" where
  "markets_of [] = Inr []"
| "markets_of ((asset, v) # rest) =
     (case py_getitem v ''tsyms'' of
        Inl err \<Rightarrow> Inl err
      | Inr tsyms \<Rightarrow>
          (case markets_of rest of
             Inl err \<Rightarrow> Inl err
           | Inr m \<Rightarrow> Inr ((asset, tsyms) # m)))"

definition list_item :: "json list \<Rightarrow> int \<Rightarrow> py_error + json" where
  "list_item xs i =
     (if - int (length xs) \<le> i \<and> i < int (length xs)
      then Inr (xs ! nat (if i < 0 then int (length xs) + i else i))
      else Inl IndexError)"

definition list_getitem :: "json list \<Rightarrow> json \<Rightarrow> py_error + json" where
  "list_getitem xs asset =
     (case asset of
        JNum q \<Rightarrow> if q = of_int \<lfloor>q\<rfloor> then list_item xs \<lfloor>q\<rfloor> else Inl TypeError
      | JBool b \<Rightarrow> list_item xs (if b then 1 else 0)
      | _ \<Rightarrow> Inl TypeError)"

fun markets_of_list :: "json list \<Rightarrow> json list \<Rightarrow> py_error option" where
  "markets_of_list pairs [] = None"
| "markets_of_list pairs (asset # rest) =
     (case list_getitem pairs asset of
        Inl err \<Rightarrow> Some err
      | Inr v \<Rightarrow>
          (case py_getitem v ''tsyms'' of
             Inl err \<Rightarrow> Some err
           | Inr tsyms \<Rightarrow> markets_of_list pairs rest))"

definition get_markets :: "env \<Rightarrow> event list \<Rightarrow> (py_error + (string \<times> json) list) \<times> event list" where
  "get_markets E tr =
     (case get_data E (cryptocompare_base_url E @ ''v2/cccagg/pairs'') ''index'' tr of
        (Inl err, tr1) \<Rightarrow> (Inl err, tr1)
      | (Inr data_resp, tr1) \<Rightarrow>
          (case py_getitem data_resp ''pairs'' of
             Inl err \<Rightarrow> (Inl err, tr1)
           | Inr pairs \<Rightarrow>
               (case pairs of
                  JObj kvs \<Rightarrow> (markets_of kvs, tr1)
                | JArr xs \<Rightarrow>
                    (case markets_of_list xs xs of
                       None \<Rightarrow> (Inr [], tr1)
                     | Some err \<Rightarrow> (Inl err, tr1))
                | JStr c \<Rightarrow> (if c = [] then Inr [] else Inl TypeError, tr1)
                | _ \<Rightarrow> (Inl TypeError, tr1))))"

text \<open>
  \<^verbatim>\<open>get_exchanges\<close>: the transposed frame of a dictionary has one row per key; its
  columns are the keys of the values that are dictionaries (a scalar value fills its
  whole row), or numbers when the values are lists. \<^verbatim>\<open>set_index('Name')\<close> raises
  \<^verbatim>\<open>KeyError\<close> when there is no column \<^verbatim>\<open>Name\<close> (so on a frame without rows), and the
  new index holds each row's name: that of the record, a null when the record has none,
  the scalar itself for a scalar. The transposed frame of a list has numbered columns,
  that of \<^verbatim>\<open>None\<close> has none.
\<close>

definition get_exchanges :: "env \<Rightarrow> bool \<Rightarrow> event list \<Rightarrow> (py_error + listing) \<times> event list" where
  "get_exchanges E as_list tr =
     (case get_data E (cryptocompare_base_url E @ ''exchanges/general'') ''exchanges'' tr of
        (Inl err, tr1) \<Rightarrow> (Inl err, tr1)
      | (Inr d, tr1) \<Rightarrow>
          (case frame_T_index d of
             Inl err \<Rightarrow> (Inl err, tr1)
           | Inr idx \<Rightarrow>
               (case d of
                  JObj kvs \<Rightarrow>
                    if \<not> list_ex (\<lambda>x. ''Name'' \<in> set (map fst (dict_items x))) (map snd kvs)
                    then (Inl KeyError, tr1)
                    else
                      (Inr (if as_list
                            then As_list (map (\<lambda>x. if is_dict x
                                                    then (case map_of (dict_items x) ''Name'' of
                                                            None \<Rightarrow> JNull | Some n \<Rightarrow> n)
                                                    else x)
                                            (map snd kvs))
                            else As_frame d), tr1)
                | _ \<Rightarrow> (Inl KeyError, tr1))))"

definition get_rate_limit :: "env \<Rightarrow> event list \<Rightarrow> (py_error + json) \<times> event list" where
  "get_rate_limit E tr =
     (case get_data E ''https://min-api.cryptocompare.com/stats/rate/limit'' ''rate limit'' tr of
        (Inl err, tr1) \<Rightarrow> (Inl err, tr1)
      | (Inr d, tr1) \<Rightarrow>
          (case frame_T_index d of
             Inl err \<Rightarrow> (Inl err, tr1)
           | Inr idx \<Rightarrow> (Inr d, tr1)))"

text \<open>
  The arguments of \<^verbatim>\<open>CryptoCompare.__init__\<close> that it acts on, and the catalog the
  constructed object holds. \<^verbatim>\<open>source_type\<close>, \<^verbatim>\<open>categories\<close>, \<^verbatim>\<open>market_types\<close> and
  \<^verbatim>\<open>frequencies\<close> are stored as given and read by no method modelled here.
\<close>

record init_args =
  arg_assets :: "listing option"
  arg_indexes :: "listing option"
  arg_markets :: "(string \<times> json) list option"
  arg_fields :: "string list option"
  arg_exchanges :: "listing option"
  arg_base_url :: string
  arg_api_key :: "string option"
  arg_max_obs_per_call :: int
  arg_rate_limit :: "json option"

record catalog =
  assets :: listing
  indexes :: listing
  markets :: "(string \<times> json) list"
  catalog_fields :: "string list"
  exchanges :: listing
  rate_limit :: json

text \<open>
  A step that may raise, then the rest: the exception of the step leaves the
  constructor.
\<close>

definition and_then ::
  "(py_error + 'a) \<times> event list \<Rightarrow> ('a \<Rightarrow> event list \<Rightarrow> (py_error + 'b) \<times> event list)
   \<Rightarrow> (py_error + 'b) \<times> event list" where
  "and_then step rest = (case step of (Inl err, tr) \<Rightarrow> (Inl err, tr) | (Inr x, tr) \<Rightarrow> rest x tr)"

text \<open>
  \<^verbatim>\<open>CryptoCompare.__init__\<close>: the test of the API key, then one \<^verbatim>\<open>get_*\<close> call for each
  catalog entry given as \<^verbatim>\<open>None\<close>, in the order of the source; none of the calls stands
  in a \<^verbatim>\<open>try\<close>.
\<close>

definition CryptoCompare_init ::
  "env \<Rightarrow> init_args \<Rightarrow> event list \<Rightarrow> (py_error + CryptoCompare \<times> catalog) \<times> event list" where
  "CryptoCompare_init E a tr =
     (case arg_api_key a of
        None \<Rightarrow> (Inl Set_api_key, tr)
      | Some key \<Rightarrow>
          and_then (case arg_assets a of None \<Rightarrow> get_assets E True tr | Some x \<Rightarrow> (Inr x, tr))
           (\<lambda>v_assets tr.
          and_then (case arg_indexes a of None \<Rightarrow> get_indexes E True tr | Some x \<Rightarrow> (Inr x, tr))
           (\<lambda>v_indexes tr.
          and_then (case arg_markets a of None \<Rightarrow> get_markets E tr | Some x \<Rightarrow> (Inr x, tr))
           (\<lambda>v_markets tr.
          and_then (case arg_fields a of None \<Rightarrow> get_fields E tr | Some x \<Rightarrow> (Inr x, tr))
           (\<lambda>v_fields tr.
          and_then (case arg_exchanges a of None \<Rightarrow> get_exchanges E True tr | Some x \<Rightarrow> (Inr x, tr))
           (\<lambda>v_exchanges tr.
          and_then (case arg_rate_limit a of None \<Rightarrow> get_rate_limit E tr | Some x \<Rightarrow> (Inr x, tr))
           (\<lambda>v_rate_limit tr.
             (Inr (\<lparr> base_url = arg_base_url a, api_key = key,
                      max_obs_per_call = arg_max_obs_per_call a \<rparr>,
                   \<lparr> assets = v_assets, indexes = v_indexes, markets = v_markets,
                      catalog_fields = v_fields, exchanges = v_exchanges,
                      rate_limit = v_rate_limit \<rparr>), tr))))))))"

section \<open>The setters of the request descriptor\<close>

text \<open>
  A Python value as a setter of \<^verbatim>\<open>DataRequest\<close> may be handed. \<^verbatim>\<open>bool\<close> is a subclass of
  \<^verbatim>\<open>int\<close>, and \<^verbatim>\<open>pd.Timestamp\<close> one of \<^verbatim>\<open>datetime\<close>.
\<close>

datatype pyval =
    PNone
  | PBool bool
  | PInt int
  | PFloat rat
  | PStr string
  | PList "pyval list"
  | PDatetime int
  | PTimestamp int

fun is_str :: "pyval \<Rightarrow> bool" where
  "is_str (PStr s) = True"
| "is_str v = False"

fun is_list :: "pyval \<Rightarrow> bool" where
  "is_list (PList xs) = True"
| "is_list v = False"

fun is_int :: "pyval \<Rightarrow> bool" where
  "is_int (PInt n) = True"
| "is_int (PBool b) = True"
| "is_int v = False"

fun is_float :: "pyval \<Rightarrow> bool" where
  "is_float (PFloat x) = True"
| "is_float v = False"

fun is_datetime :: "pyval \<Rightarrow> bool" where
  "is_datetime (PDatetime t) = True"
| "is_datetime (PTimestamp t) = True"
| "is_datetime v = False"

text \<open>\<^verbatim>\<open>v in [s1, s2, ...]\<close> for a list of strings.\<close>

fun in_strings :: "pyval \<Rightarrow> string list \<Rightarrow> bool" where
  "in_strings (PStr s) xs = (s \<in> set xs)"
| "in_strings v xs = False"

text \<open>
  Each setter: the value it stores in its attribute, or the exception it raises (then
  the attribute is not assigned).
\<close>

definition tickers_setter :: "pyval \<Rightarrow> py_error + pyval" where
  "tickers_setter v =
     (if is_list v then Inr v else if is_str v then Inr (PList [v]) else Inl Setter_rejected)"

definition freq_setter :: "pyval \<Rightarrow> py_error + pyval" where
  "freq_setter v =
     (if \<not> in_strings v [''tick'', ''1min'', ''5min'', ''10min'', ''20min'', ''30min'', ''1h'',
                           ''2h'', ''4h'', ''8h'', ''d'', ''w'', ''m'']
      then Inl Setter_rejected else Inr v)"

definition quote_ccy_setter :: "pyval \<Rightarrow> py_error + pyval" where
  "quote_ccy_setter v =
     (if v = PNone then Inr v else if is_str v then Inr v else Inl Setter_rejected)"

definition exch_setter :: "pyval \<Rightarrow> py_error + pyval" where
  "exch_setter v =
     (if v = PNone then Inr v else if is_str v then Inr v else Inl Setter_rejected)"

text \<open>
  \<open>strptime_ymd s\<close>: \<^verbatim>\<open>datetime.strptime(s, '%Y-%m-%d')\<close> does not raise \<^verbatim>\<open>ValueError\<close>.
\<close>

definition date_setter :: "(string \<Rightarrow> bool) \<Rightarrow> pyval \<Rightarrow> py_error + pyval" where
  "date_setter strptime_ymd v =
     (if v = PNone then Inr v
      else case v of
             PStr s \<Rightarrow> if strptime_ymd s then Inr v else Inl ValueError
           | _ \<Rightarrow> if is_datetime v then Inr v else Inl Setter_rejected)"

definition fields_setter :: "pyval \<Rightarrow> py_error + pyval" where
  "fields_setter v = Inr (if is_str v then PList [v] else v)"

definition tz_setter :: "string list \<Rightarrow> pyval \<Rightarrow> py_error + pyval" where
  "tz_setter all_timezones v =
     (if \<not> in_strings v all_timezones then Inl Setter_rejected else Inr v)"

definition cat_setter :: "pyval \<Rightarrow> py_error + pyval" where
  "cat_setter v =
     (if v = PNone then Inr v
      else if in_strings v [''crypto'', ''fx'', ''rates'', ''equities'', ''commodities'',
                            ''bonds'', ''credit'', ''macro'', ''alt'']
      then Inr v else Inl Setter_rejected)"

text \<open>
  \<^verbatim>\<open>elif isinstance(trials, int) or isinstance(trial, str)\<close>: the second test names
  \<^verbatim>\<open>trial\<close>, which is not defined, and is reached when the first is false.
\<close>

definition trials_setter :: "pyval \<Rightarrow> py_error + pyval" where
  "trials_setter v =
     (if v = PNone then Inr v else if is_int v then Inr v else Inl NameError)"

definition pause_setter :: "pyval \<Rightarrow> py_error + pyval" where
  "pause_setter v =
     (if v = PNone then Inr v else if is_float v then Inr v else Inl Setter_rejected)"

definition source_tickers_setter :: "pyval \<Rightarrow> py_error + pyval" where
  "source_tickers_setter v =
     (if v = PNone then Inr v else if is_list v then Inr v
      else if is_str v then Inr (PList [v]) else Inl Setter_rejected)"

definition source_freq_setter :: "pyval \<Rightarrow> py_error + pyval" where
  "source_freq_setter v =
     (if v = PNone then Inr v else if is_str v then Inr v else Inl Setter_rejected)"

definition source_fields_setter :: "pyval \<Rightarrow> py_error + pyval" where
  "source_fields_setter v =
     (if v = PNone then Inr v else if is_list v then Inr v
      else if is_str v then Inr v else Inl Setter_rejected)"

text \<open>
  The attributes of a \<^verbatim>\<open>DataRequest\<close> object, and \<^verbatim>\<open>__init__\<close>, which takes one argument
  per attribute and assigns them through the setters in the order of the source; the
  first setter that raises ends the construction.
\<close>

record DataRequest_attrs =
  attr_tickers :: pyval
  attr_frequency :: pyval
  attr_quote_ccy :: pyval
  attr_exch :: pyval
  attr_start_date :: pyval
  attr_end_date :: pyval
  attr_fields :: pyval
  attr_timezone :: pyval
  attr_category :: pyval
  attr_trials :: pyval
  attr_pause :: pyval
  attr_source_tickers :: pyval
  attr_source_freq :: pyval
  attr_source_fields :: pyval

definition assign :: "py_error + pyval \<Rightarrow> (pyval \<Rightarrow> py_error + 'a) \<Rightarrow> py_error + 'a" where
  "assign stored rest = (case stored of Inl err \<Rightarrow> Inl err | Inr v \<Rightarrow> rest v)"

definition DataRequest_init ::
  "(string \<Rightarrow> bool) \<Rightarrow> string list \<Rightarrow> DataRequest_attrs \<Rightarrow> py_error + DataRequest_attrs" where
  "DataRequest_init strptime_ymd all_timezones a =
     assign (tickers_setter (attr_tickers a)) (\<lambda>v1.
     assign (freq_setter (attr_frequency a)) (\<lambda>v2.
     assign (quote_ccy_setter (attr_quote_ccy a)) (\<lambda>v3.
     assign (exch_setter (attr_exch a)) (\<lambda>v4.
     assign (date_setter strptime_ymd (attr_start_date a)) (\<lambda>v5.
     assign (date_setter strptime_ymd (attr_end_date a)) (\<lambda>v6.
     assign (fields_setter (attr_fields a)) (\<lambda>v7.
     assign (tz_setter all_timezones (attr_timezone a)) (\<lambda>v8.
     assign (cat_setter (attr_category a)) (\<lambda>v9.
     assign (trials_setter (attr_trials a)) (\<lambda>v10.
     assign (pause_setter (attr_pause a)) (\<lambda>v11.
     assign (source_tickers_setter (attr_source_tickers a)) (\<lambda>v12.
     assign (source_freq_setter (attr_source_freq a)) (\<lambda>v13.
     assign (source_fields_setter (attr_source_fields a)) (\<lambda>v14.
       Inr \<lparr> attr_tickers = v1, attr_frequency = v2, attr_quote_ccy = v3, attr_exch = v4,
             attr_start_date = v5, attr_end_date = v6, attr_fields = v7,
             attr_timezone = v8, attr_category = v9, attr_trials = v10, attr_pause = v11,
             attr_source_tickers = v12, attr_source_freq = v13,
             attr_source_fields = v14 \<rparr>))))))))))))))"

text \<open>The defaults of \<^verbatim>\<open>DataRequest.__init__\<close>.\<close>

definition default_args :: DataRequest_attrs where
  "default_args =
     \<lparr> attr_tickers = PStr ''btc'', attr_frequency = PStr ''d'', attr_quote_ccy = PNone,
       attr_exch = PNone, attr_start_date = PNone, attr_end_date = PNone,
       attr_fields = PList [PStr ''close''], attr_timezone = PStr ''UTC'',
       attr_category = PNone, attr_trials = PInt 3, attr_pause = PFloat (1 / 10),
       attr_source_tickers = PNone, attr_source_freq = PNone, attr_source_fields = PNone \<rparr>"

section \<open>Concrete inputs\<close>

text \<open>The default request of \<^verbatim>\<open>DataRequest.__init__\<close>, at one-minute frequency.\<close>

definition minute_request :: DataRequest where
  "minute_request =
     \<lparr> tickers = [''btc''], freq = ''1min'', quote_ccy = None, exch = None,
       start_date = None, end_date = None, req_fields = [''close''],
       trials = Some 3, pause = Some (1 / 10) \<rparr>"

text \<open>
  Two orders a sort may give rows with equal index entries: the order it finds them in,
  and that order turned round.
\<close>

definition first_fetched :: "'k list \<Rightarrow> nat \<Rightarrow> nat" where
  "first_fetched ks i = i"

definition last_fetched :: "'k list \<Rightarrow> nat \<Rightarrow> nat" where
  "last_fetched ks i = length ks - i"

text \<open>
  Two pages gathered for one ticker, the later page first, as the loop appends them: the
  bars at times 3, 4, 5 and then the bars at times 1, 2, 3. The bar at time 3 is in both
  (with another price in the second), and the bar at time 2 has a zero close.
\<close>

definition overlapping_pages :: "ohlcv_row list" where
  "overlapping_pages =
     [\<lparr> r_time = 3, r_open = Num 30, r_high = Num 31, r_low = Num 29, r_close = Num 30,
        r_volumefrom = Num 7 \<rparr>,
      \<lparr> r_time = 4, r_open = Num 40, r_high = Num 41, r_low = Num 39, r_close = Num 40,
        r_volumefrom = Num 8 \<rparr>,
      \<lparr> r_time = 5, r_open = Num 50, r_high = Num 51, r_low = Num 49, r_close = Num 50,
        r_volumefrom = Num 9 \<rparr>,
      \<lparr> r_time = 1, r_open = Num 10, r_high = Num 11, r_low = Num 9, r_close = Num 10,
        r_volumefrom = Num 5 \<rparr>,
      \<lparr> r_time = 2, r_open = Num 20, r_high = Num 21, r_low = Num 19, r_close = Num 0,
        r_volumefrom = Num 6 \<rparr>,
      \<lparr> r_time = 3, r_open = Num 33, r_high = Num 34, r_low = Num 32, r_close = Num 33,
        r_volumefrom = Num 7 \<rparr>]"

text \<open>A daily request for one ticker with both dates set (to the instants 2 and 4).\<close>

definition window_request :: DataRequest where
  "window_request =
     \<lparr> tickers = [''btc''], freq = ''d'', quote_ccy = None, exch = None,
       start_date = Some 2, end_date = Some 4, req_fields = [''close''],
       trials = Some 3, pause = Some (1 / 10) \<rparr>"

text \<open>
  A client whose pages hold at most two observations beyond the one asked for (a full
  page has three rows), and bars with one price.
\<close>

definition client :: CryptoCompare where
  "client = \<lparr> base_url = ''api/'', api_key = ''key'', max_obs_per_call = 2 \<rparr>"

definition bar :: "int \<Rightarrow> rat \<Rightarrow> ohlcv_row" where
  "bar t c = \<lparr> r_time = t, r_open = Num c, r_high = Num c, r_low = Num c, r_close = Num c,
               r_volumefrom = Num 1 \<rparr>"

definition short_page :: "ohlcv_row list" where
  "short_page = [bar 90 5, bar 100 6]"

definition full_page :: "ohlcv_row list" where
  "full_page = [bar 40 4, bar 50 5, bar 60 6]"

text \<open>
  Two overlapping pages whose boundary row, the bar at time 3, is the same in both.
\<close>

definition boundary_pages :: "ohlcv_row list" where
  "boundary_pages = [bar 3 30, bar 4 40, bar 5 50, bar 1 10, bar 2 20, bar 3 30]"

text \<open>
  A daily request for the close of two tickers up to the instant 100, with three trials,
  and its translation.
\<close>

definition two_ticker_request :: DataRequest where
  "two_ticker_request =
     \<lparr> tickers = [''eth'', ''btc''], freq = ''d'', quote_ccy = None, exch = None,
       start_date = None, end_date = Some 100, req_fields = [''close''],
       trials = Some 3, pause = Some (1 / 10) \<rparr>"

definition two_ticker_cc :: cc_data_req where
  "two_ticker_cc =
     \<lparr> cc_tickers = [''ETH'', ''BTC''], cc_frequency = ''histoday'', cc_currency = ''USD'',
       cc_exchange = ''CCCAGG'', cc_start_date = 1262304000, cc_end_date = 100,
       cc_fields = [''close''], cc_trials = Some 3, cc_pause = Some (1 / 10) \<rparr>"

text \<open>
  The vendor's answer to the catalog call of \<^verbatim>\<open>get_fields\<close>: after the first four keys,
  the on-chain fields \<^verbatim>\<open>new_addresses\<close> and \<^verbatim>\<open>active_addresses\<close>.
\<close>

definition latest_body :: json where
  "latest_body =
     JObj [(''Response'', JStr ''Success''),
           (''Data'', JObj [(''id'', JNum 1182), (''symbol'', JStr ''BTC''), (''time'', JNum 100),
                            (''zero_balance_addresses_all_time'', JNum 7),
                            (''new_addresses'', JNum 5), (''active_addresses'', JNum 9)])]"

definition catalog_fields_list :: "string list" where
  "catalog_fields_list =
     [''open'', ''high'', ''low'', ''close'', ''volume'', ''new_addresses'', ''active_addresses'']"

text \<open>
  Three vendors, each with a sort that keeps rows with equal index entries in the order
  it finds them. \<open>eth_down\<close> answers every price call for ETH with an error status,
  every other price call with a short page, and no on-chain call in the expected format.
  \<open>transport_down\<close> lets every price call fail in transport and answers every on-chain
  call with a one-row page. \<open>deep_history\<close> answers the price call at the cursor 100
  with a full page and any other with an empty page.
\<close>

definition eth_down :: env where
  "eth_down =
     \<lparr> ohlcv_api = (\<lambda>k q. if q_fsym q = ''ETH'' then Status_error (Some ''rate limit'')
                           else Page short_page),
       onchain_api = (\<lambda>k q. Malformed),
       meta_api = (\<lambda>k url. Body latest_body),
       cryptocompare_base_url = ''api/'', clock_now = (\<lambda>k. 1000), clock_utcnow = (\<lambda>k. 1000),
       date_ties = first_fetched, pair_ties = first_fetched \<rparr>"

definition onchain_page :: "onchain_row list" where
  "onchain_page =
     [\<lparr> oc_id = 1, oc_time = 100, oc_symbol = ''BTC'',
        oc_metrics = [(''new_addresses'', Num 5), (''active_addresses'', Num 9)] \<rparr>]"

definition transport_down :: env where
  "transport_down =
     eth_down\<lparr>ohlcv_api := (\<lambda>k q. Transport_error), onchain_api := (\<lambda>k q. Page onchain_page)\<rparr>"

definition deep_history :: env where
  "deep_history =
     eth_down\<lparr>ohlcv_api := (\<lambda>k q. if q_toTs q = 100 then Page full_page else Page [])\<rparr>"

text \<open>
  \<open>page_two_down\<close> answers the price call at the cursor 100 with a full page and every
  other price call with an error status. \<open>eth_silent\<close> is \<open>eth_down\<close> with no message in
  the error answers. \<open>zero_closes\<close> answers every price call with one bar whose close is
  zero, and every on-chain call with one row for the ticker asked for.
\<close>

definition page_two_down :: env where
  "page_two_down =
     eth_down\<lparr>ohlcv_api := (\<lambda>k q. if q_toTs q = 100 then Page full_page
                                   else Status_error (Some ''rate limit''))\<rparr>"

definition eth_silent :: env where
  "eth_silent =
     eth_down\<lparr>ohlcv_api := (\<lambda>k q. if q_fsym q = ''ETH'' then Status_error None
                                   else Page short_page)\<rparr>"

definition zero_closes :: env where
  "zero_closes =
     eth_down\<lparr>ohlcv_api := (\<lambda>k q. Page [bar 100 0]),
              onchain_api := (\<lambda>k q. Page [\<lparr> oc_id = 1, oc_time = 100, oc_symbol = q_fsym q,
                  oc_metrics = [(''new_addresses'', Num 5), (''active_addresses'', Num 9)] \<rparr>])\<rparr>"

text \<open>The same request for one ticker, with its translation, and its hourly translation.\<close>

definition btc_request :: DataRequest where
  "btc_request = two_ticker_request\<lparr>tickers := [''btc'']\<rparr>"

definition btc_cc :: cc_data_req where
  "btc_cc = two_ticker_cc\<lparr>cc_tickers := [''BTC'']\<rparr>"

definition hourly_cc :: cc_data_req where
  "hourly_cc = btc_cc\<lparr>cc_frequency := ''histohour''\<rparr>"

definition catalog_call :: event where
  "catalog_call = Get_meta ''api/blockchain/latest?fsym=BTC''"

text \<open>
  A vendor that answers every catalog call with a payload of the expected shape, and
  the answer the vendor gives with an error status, whose payload is an empty
  dictionary. \<open>markets_down\<close> gives the error answer to the markets call,
  \<open>assets_down\<close> to the assets call.
\<close>

definition catalog_payload :: "string \<Rightarrow> json" where
  "catalog_payload url =
     (if url = ''api/all/coinlist'' then JObj [(''BTC'', JObj [(''Symbol'', JStr ''BTC'')])]
      else if url = ''api/index/list'' then JObj [(''MVDA'', JObj [(''name'', JStr ''MVDA'')])]
      else if url = ''api/v2/cccagg/pairs''
        then JObj [(''pairs'', JObj [(''BTC'', JObj [(''tsyms'', JArr [JStr ''USD''])])])]
      else if url = ''api/exchanges/general''
        then JObj [(''2431'', JObj [(''Name'', JStr ''Binance'')])]
      else if url = ''https://min-api.cryptocompare.com/stats/rate/limit''
        then JObj [(''calls_made'', JObj [(''second'', JNum 1)])]
      else JObj [(''id'', JNum 1182), (''symbol'', JStr ''BTC''), (''time'', JNum 100),
                 (''zero_balance_addresses_all_time'', JNum 7),
                 (''new_addresses'', JNum 5), (''active_addresses'', JNum 9)])"

definition error_body :: json where
  "error_body =
     JObj [(''Response'', JStr ''Error''), (''Message'', JStr ''rate limit''),
           (''Data'', JObj [])]"

definition healthy :: env where
  "healthy =
     eth_down\<lparr>meta_api :=
       (\<lambda>k url. Body (JObj [(''Response'', JStr ''Success''), (''Data'', catalog_payload url)]))\<rparr>"

definition markets_down :: env where
  "markets_down =
     healthy\<lparr>meta_api := (\<lambda>k url. if url = ''api/v2/cccagg/pairs'' then Body error_body
                                     else meta_api healthy k url)\<rparr>"

definition assets_down :: env where
  "assets_down =
     healthy\<lparr>meta_api := (\<lambda>k url. if url = ''api/all/coinlist'' then Body error_body
                                     else meta_api healthy k url)\<rparr>"

text \<open>The arguments of \<^verbatim>\<open>CryptoCompare()\<close> with an API key and every catalog entry left out.\<close>

definition default_init :: init_args where
  "default_init =
     \<lparr> arg_assets = None, arg_indexes = None, arg_markets = None, arg_fields = None,
       arg_exchanges = None, arg_base_url = ''api/'', arg_api_key = Some ''key'',
       arg_max_obs_per_call = 2000, arg_rate_limit = None \<rparr>"

section \<open>Parameter translation\<close>

text \<open>
  C1. The claim: for a minute-granularity frequency the translation sets the vendor start
  time to seven days before now, whatever start date was requested. The code computes
  that value and then overwrites it: at the request above, with any clock reading
  \<open>now\<close>, the start time comes out as 2010-01-01 (1262304000), and with a requested
  start date \<open>d\<close> it comes out as \<open>d\<close>; the value \<open>now - 604800\<close> never reaches
  the result.
\<close>

theorem convert_minute_start_not_clamped:
  "map_sum id cc_start_date (convert_data_req_params now utcnow minute_request)
     = Inr 1262304000
   \<and> map_sum id cc_start_date
       (convert_data_req_params now utcnow (minute_request\<lparr>start_date := Some d\<rparr>))
     = Inr d
   \<and> map_sum id cc_frequency (convert_data_req_params now utcnow minute_request)
     = Inr ''histominute''"
  by (simp add: convert_data_req_params_def minute_request_def last3_def
      convert_datetime_to_unix_tmsp_def date_2010_01_01_def Let_def)

section \<open>Response normalisation\<close>

subsection \<open>Removing duplicated index entries\<close>

lemma drop_duplicated_subset: "set (drop_duplicated key seen xs) \<subseteq> set xs"
  by (induction xs arbitrary: seen) auto

lemma drop_duplicated_fresh:
  "x \<in> set (drop_duplicated key seen xs) \<Longrightarrow> key x \<notin> set seen"
proof (induction xs arbitrary: seen)
  case Nil
  then show ?case by simp
next
  case (Cons r rs)
  show ?case
  proof (cases "key r \<in> set seen")
    case True
    with Cons show ?thesis by simp
  next
    case False
    with Cons.prems have "x = r \<or> x \<in> set (drop_duplicated key (key r # seen) rs)" by simp
    then show ?thesis
    proof
      assume "x = r"
      with False show ?thesis by simp
    next
      assume "x \<in> set (drop_duplicated key (key r # seen) rs)"
      then have "key x \<notin> set (key r # seen)" by (rule Cons.IH)
      then show ?thesis by simp
    qed
  qed
qed

lemma drop_duplicated_distinct: "distinct (map key (drop_duplicated key seen xs))"
proof (induction xs arbitrary: seen)
  case Nil
  then show ?case by simp
next
  case (Cons r rs)
  have "key r \<notin> key ` set (drop_duplicated key (key r # seen) rs)"
  proof
    assume "key r \<in> key ` set (drop_duplicated key (key r # seen) rs)"
    then obtain y where y: "y \<in> set (drop_duplicated key (key r # seen) rs)" and "key r = key y"
      by auto
    from y have "key y \<notin> set (key r # seen)" by (rule drop_duplicated_fresh)
    with \<open>key r = key y\<close> show False by simp
  qed
  with Cons show ?case by simp
qed

lemma drop_duplicated_sorted:
  "sorted (map key xs) \<Longrightarrow> sorted (map key (drop_duplicated key seen xs))"
proof (induction xs arbitrary: seen)
  case Nil
  then show ?case by simp
next
  case (Cons r rs)
  have "set (drop_duplicated key (key r # seen) rs) \<subseteq> set rs"
    by (rule drop_duplicated_subset)
  with Cons show ?case by auto
qed

text \<open>A row that is kept is the first row of the frame with its index entry.\<close>

lemma drop_duplicated_first:
  "x \<in> set (drop_duplicated key seen xs) \<Longrightarrow> find (\<lambda>y. key y = key x) xs = Some x"
proof (induction xs arbitrary: seen)
  case Nil
  then show ?case by simp
next
  case (Cons r rs)
  show ?case
  proof (cases "key r \<in> set seen")
    case True
    with Cons.prems have in_rest: "x \<in> set (drop_duplicated key seen rs)" by simp
    then have "key x \<notin> set seen" by (rule drop_duplicated_fresh)
    with True have "key r \<noteq> key x" by auto
    with Cons.IH [OF in_rest] show ?thesis by simp
  next
    case False
    with Cons.prems have "x = r \<or> x \<in> set (drop_duplicated key (key r # seen) rs)" by simp
    then show ?thesis
    proof
      assume "x = r"
      then show ?thesis by simp
    next
      assume in_rest: "x \<in> set (drop_duplicated key (key r # seen) rs)"
      then have "key x \<notin> set (key r # seen)" by (rule drop_duplicated_fresh)
      then have "key r \<noteq> key x" by auto
      with Cons.IH [OF in_rest] show ?thesis by simp
    qed
  qed
qed

lemma distinct_fst_count:
  "distinct (map fst xs) \<Longrightarrow>
   length (filter (\<lambda>p. fst p = i) xs) = (if i \<in> fst ` set xs then 1 else 0)"
  by (induction xs) (auto simp: image_iff)

subsection \<open>Sorting by the index\<close>

text \<open>
  Whatever order the sort gives to rows with equal index entries, it sorts the rows by
  their entries and neither adds nor loses a row.
\<close>

lemma sorted_map_fst:
  "sorted (ys :: ('a::linorder \<times> 'b::linorder) list) \<Longrightarrow> sorted (map fst ys)"
  by (induction ys) (auto simp: less_eq_prod_def)

lemma sort_by_sorted: "sorted (map key (sort_by ties key xs))"
proof -
  let ?f = "\<lambda>(i, x). (key x, ties (map key xs) i)"
  let ?ps = "sort_key ?f (zip [0..<length xs] xs)"
  have eq: "fst \<circ> ?f = key \<circ> snd"
    by (rule ext) (simp add: case_prod_unfold)
  have "sorted (map ?f ?ps)" by (rule sorted_sort_key)
  then have "sorted (map fst (map ?f ?ps))" by (rule sorted_map_fst)
  then have "sorted (map (fst \<circ> ?f) ?ps)" by (simp only: map_map)
  then have "sorted (map (key \<circ> snd) ?ps)" by (simp only: eq)
  then show ?thesis by (simp only: sort_by_def map_map)
qed

lemma set_sort_by: "set (sort_by ties key xs) = set xs"
proof -
  let ?zs = "zip [0..<length xs] xs"
  have "set (sort_by ties key xs) = snd ` set ?zs"
    by (simp only: sort_by_def set_map set_sort)
  also have "\<dots> = set (map snd ?zs)" by (simp only: set_map)
  also have "map snd ?zs = xs" by (simp add: map_snd_zip)
  finally show ?thesis .
qed

lemma length_sort_by: "length (sort_by ties key xs) = length xs"
  by (simp add: sort_by_def)

lemma sort_by_Nil_iff: "sort_by ties key xs = [] \<longleftrightarrow> xs = []"
proof -
  have "length (sort_by ties key xs) = length xs" by (rule length_sort_by)
  then show ?thesis by (metis length_0_conv)
qed

text \<open>
  Conversely, every order that sorts the rows by their entries is the result for some
  \<open>ties\<close>: \<open>ps\<close> lists each position of \<open>xs\<close> once, in the order the sort puts
  the rows.
\<close>

lemma sort_by_any_order:
  fixes key :: "'a \<Rightarrow> 'k::linorder"
  assumes dist: "distinct ps" and perm: "set ps = {0..<length xs}"
    and srt: "sorted (map (\<lambda>i. key (xs ! i)) ps)"
  shows "\<exists>ties. sort_by ties key xs = map (\<lambda>i. xs ! i) ps"
proof -
  define n where "n = length xs"
  define pos where "pos = (\<lambda>i. THE j. j < length ps \<and> ps ! j = i)"
  define f where "f = (\<lambda>(i, x). (key x, pos i))"
  define Z where "Z = zip [0..<n] xs"
  define B where "B = map (\<lambda>i. (i, xs ! i)) ps"
  have setps: "set ps = {0..<n}"
    using perm by (simp add: n_def)
  have pos: "pos (ps ! j) = j" if "j < length ps" for j
    unfolding pos_def using that dist by (auto simp: nth_eq_iff_index_eq intro!: the_equality)
  have Zmap: "Z = map (\<lambda>i. (i, xs ! i)) [0..<n]"
    unfolding Z_def n_def by (rule nth_equalityI) simp_all
  have setZB: "set Z = set B"
    by (simp add: Zmap B_def setps)
  have injpos: "inj_on pos {0..<n}"
  proof (rule inj_onI)
    fix a b assume "a \<in> {0..<n}" "b \<in> {0..<n}" and eq: "pos a = pos b"
    then obtain j k where "j < length ps" "ps ! j = a" "k < length ps" "ps ! k = b"
      using setps by (metis in_set_conv_nth)
    with eq pos show "a = b" by metis
  qed
  have inj: "inj_on f (set Z)"
    unfolding Zmap f_def using injpos by (auto simp: inj_on_def)
  have distZ: "distinct Z"
    unfolding Zmap by (simp add: distinct_map inj_on_def)
  have distB: "distinct B"
    unfolding B_def using dist by (simp add: distinct_map inj_on_def)
  let ?A = "sort_key f Z"
  have "sorted (map f ?A)" by (rule sorted_sort_key)
  moreover have "distinct (map f ?A)"
    using distZ inj by (simp add: distinct_map)
  moreover have "sorted (map f B)"
  proof -
    have "map f B = map (\<lambda>i. (key (xs ! i), pos i)) ps"
      by (simp add: B_def f_def)
    moreover have "sorted (map (\<lambda>i. (key (xs ! i), pos i)) ps)"
    proof (subst sorted_iff_nth_mono, intro allI impI)
      fix j k
      assume jk: "j \<le> k" and k: "k < length (map (\<lambda>i. (key (xs ! i), pos i)) ps)"
      then have "key (xs ! (ps ! j)) \<le> key (xs ! (ps ! k))"
        using srt by (auto simp: sorted_iff_nth_mono dest!: spec [of _ j] spec [of _ k])
      with jk k show "map (\<lambda>i. (key (xs ! i), pos i)) ps ! j
                        \<le> map (\<lambda>i. (key (xs ! i), pos i)) ps ! k"
        by (simp add: pos less_eq_prod_def)
    qed
    ultimately show ?thesis by simp
  qed
  moreover have "distinct (map f B)"
    using distB inj setZB by (simp add: distinct_map)
  moreover have "set (map f ?A) = set (map f B)"
    using setZB by simp
  ultimately have "map f ?A = map f B"
    by (rule sorted_distinct_set_unique)
  moreover have "inj_on f (set ?A \<union> set B)"
    using inj setZB by simp
  ultimately have "?A = B"
    by (simp add: inj_on_map_eq_map)
  then have "sort_by (\<lambda>ks. pos) key xs = map snd B"
    by (simp add: sort_by_def f_def Z_def n_def)
  also have "\<dots> = map (\<lambda>i. xs ! i) ps"
    by (simp add: B_def comp_def)
  finally show ?thesis by blast
qed

subsection \<open>The rows of the normalised table\<close>

lemma wrangle_ohlcv_resp_rows:
  "rows (wrangle_ohlcv_resp ties data_req data_resp) =
     map (\<lambda>r. (Date (r_time r), ohlcv_cells r))
       (filter (kept data_req) (drop_duplicated r_time [] (sort_by ties r_time data_resp)))"
proof -
  have "kept data_req = (\<lambda>r. r_close r \<noteq> Num 0 \<and> NaN \<notin> set (ohlcv_cells r)
      \<and> (case start_date data_req of None \<Rightarrow> True | Some s \<Rightarrow> s \<le> r_time r)
      \<and> (case end_date data_req of None \<Rightarrow> True | Some e \<Rightarrow> r_time r \<le> e))"
    by (rule ext) (simp add: kept_def)
  then show ?thesis
    by (simp add: wrangle_ohlcv_resp_def Let_def conj_commute conj_left_commute
        split: option.splits)
qed

lemma strict_dates:
  "sorted_wrt (\<lambda>a b. r_time a < r_time b)
     (filter P (drop_duplicated r_time [] (sort_by ties r_time data_resp)))"
proof -
  let ?d = "drop_duplicated r_time [] (sort_by ties r_time data_resp)"
  have "sorted (map r_time (sort_by ties r_time data_resp))"
    by (rule sort_by_sorted)
  then have "sorted (map r_time ?d)"
    by (rule drop_duplicated_sorted)
  moreover have "distinct (map r_time ?d)"
    by (rule drop_duplicated_distinct)
  ultimately have "sorted_wrt (<) (map r_time ?d)"
    by (simp add: strict_sorted_iff)
  then have "sorted_wrt (\<lambda>a b. r_time a < r_time b) ?d"
    by (simp add: sorted_wrt_map)
  then show ?thesis by (rule sorted_wrt_filter)
qed

text \<open>
  C6. Every row of the table \<^verbatim>\<open>wrangle_ohlcv_resp\<close> returns has its timestamp at or after
  the requested start date and at or before the requested end date, whenever that date
  is set; and the table is the one an unbounded request would get, cut by exactly the
  bounds that are set (a date left at \<^verbatim>\<open>None\<close> removes no row). This holds whatever order
  the sort gives to rows with equal dates.
\<close>

theorem wrangle_ohlcv_resp_window:
  "(\<forall>(i, cs) \<in> set (rows (wrangle_ohlcv_resp ties data_req data_resp)).
      (\<forall>s. start_date data_req = Some s \<longrightarrow> s \<le> index_date i) \<and>
      (\<forall>e. end_date data_req = Some e \<longrightarrow> index_date i \<le> e))
   \<and> rows (wrangle_ohlcv_resp ties data_req data_resp) =
       filter (\<lambda>(i, cs).
           (case start_date data_req of None \<Rightarrow> True | Some s \<Rightarrow> s \<le> index_date i) \<and>
           (case end_date data_req of None \<Rightarrow> True | Some e \<Rightarrow> index_date i \<le> e))
         (rows (wrangle_ohlcv_resp ties (data_req\<lparr>start_date := None, end_date := None\<rparr>)
            data_resp))"
proof
  show "\<forall>(i, cs) \<in> set (rows (wrangle_ohlcv_resp ties data_req data_resp)).
      (\<forall>s. start_date data_req = Some s \<longrightarrow> s \<le> index_date i) \<and>
      (\<forall>e. end_date data_req = Some e \<longrightarrow> index_date i \<le> e)"
    by (auto simp: wrangle_ohlcv_resp_rows kept_def)
next
  show "rows (wrangle_ohlcv_resp ties data_req data_resp) =
       filter (\<lambda>(i, cs).
           (case start_date data_req of None \<Rightarrow> True | Some s \<Rightarrow> s \<le> index_date i) \<and>
           (case end_date data_req of None \<Rightarrow> True | Some e \<Rightarrow> index_date i \<le> e))
         (rows (wrangle_ohlcv_resp ties (data_req\<lparr>start_date := None, end_date := None\<rparr>)
            data_resp))"
    by (auto simp: wrangle_ohlcv_resp_rows kept_def filter_map comp_def
        split: option.splits intro!: filter_cong arg_cong [where f = "map _"])
qed

text \<open>
  The request with both dates set, on the two overlapping pages: the bars at times 3 and
  4 remain, the bars at 1 and 5 are outside the dates (the bar at 2 has a zero close).
\<close>

theorem wrangle_ohlcv_resp_window_witness:
  "start_date window_request = Some 2 \<and> end_date window_request = Some 4
   \<and> map (index_date \<circ> fst)
       (rows (wrangle_ohlcv_resp first_fetched window_request overlapping_pages)) = [3, 4]
   \<and> map (index_date \<circ> fst)
       (rows (wrangle_ohlcv_resp first_fetched
          (window_request\<lparr>start_date := None, end_date := None\<rparr>) overlapping_pages))
     = [1, 3, 4, 5]"
  using wrangle_ohlcv_resp_window [of first_fetched window_request overlapping_pages]
  by (simp add: wrangle_ohlcv_resp_def window_request_def overlapping_pages_def
      ohlcv_cells_def sort_by_def first_fetched_def Let_def)

text \<open>
  C7. The table \<^verbatim>\<open>wrangle_ohlcv_resp\<close> makes of the pages gathered for one ticker has
  strictly increasing timestamps, and every timestamp in it has exactly one row. That
  row holds the cells of a gathered row with this timestamp: the first such row in the
  frame as \<^verbatim>\<open>sort_index\<close> leaves it, which is the occurrence \<^verbatim>\<open>duplicated()\<close> does not
  mark. This holds whatever order the sort gives to rows with equal dates. When the
  gathered rows with one timestamp all hold the same cells, as the boundary row of two
  overlapping pages does, the row of the table holds the cells of the first of them as
  fetched; when they differ, which of them comes first after the sort is for the sort
  to say.
\<close>

theorem wrangle_ohlcv_resp_strict:
  "sorted_wrt (<)
     (map (index_date \<circ> fst) (rows (wrangle_ohlcv_resp ties data_req data_resp)))
   \<and> (\<forall>(i, cs) \<in> set (rows (wrangle_ohlcv_resp ties data_req data_resp)).
        length (filter (\<lambda>(j, ds). j = i) (rows (wrangle_ohlcv_resp ties data_req data_resp)))
          = 1
        \<and> (\<exists>r. find (\<lambda>r. r_time r = index_date i) (sort_by ties r_time data_resp) = Some r
               \<and> r \<in> set data_resp \<and> i = Date (r_time r) \<and> cs = ohlcv_cells r))
   \<and> ((\<forall>r \<in> set data_resp. \<forall>r' \<in> set data_resp.
          r_time r = r_time r' \<longrightarrow> ohlcv_cells r = ohlcv_cells r')
        \<longrightarrow> (\<forall>(i, cs) \<in> set (rows (wrangle_ohlcv_resp ties data_req data_resp)).
              \<exists>r. find (\<lambda>r. r_time r = index_date i) data_resp = Some r
                  \<and> i = Date (r_time r) \<and> cs = ohlcv_cells r))"
proof (intro conjI)
  let ?w = "rows (wrangle_ohlcv_resp ties data_req data_resp)"
  let ?d = "drop_duplicated r_time [] (sort_by ties r_time data_resp)"
  let ?f = "filter (kept data_req) ?d"
  have strict: "sorted_wrt (\<lambda>a b. r_time a < r_time b) ?f" by (rule strict_dates)
  show "sorted_wrt (<) (map (index_date \<circ> fst) ?w)"
    using strict by (simp add: wrangle_ohlcv_resp_rows sorted_wrt_map comp_def)
  have row: "\<exists>r. find (\<lambda>r. r_time r = index_date i) (sort_by ties r_time data_resp) = Some r
               \<and> r \<in> set data_resp \<and> i = Date (r_time r) \<and> cs = ohlcv_cells r"
    if mem: "(i, cs) \<in> set ?w" for i cs
  proof -
    from mem obtain r where r: "r \<in> set ?f" and i: "i = Date (r_time r)"
      and cs: "cs = ohlcv_cells r"
      by (auto simp: wrangle_ohlcv_resp_rows)
    from r have in_d: "r \<in> set ?d" by simp
    then have first: "find (\<lambda>y. r_time y = r_time r) (sort_by ties r_time data_resp) = Some r"
      by (rule drop_duplicated_first)
    from in_d have "r \<in> set (sort_by ties r_time data_resp)"
      by (rule subsetD [OF drop_duplicated_subset])
    then have "r \<in> set data_resp" by (simp add: set_sort_by)
    with first i cs show ?thesis by auto
  qed
  show "\<forall>(i, cs) \<in> set ?w.
        length (filter (\<lambda>(j, ds). j = i) ?w) = 1
        \<and> (\<exists>r. find (\<lambda>r. r_time r = index_date i) (sort_by ties r_time data_resp) = Some r
               \<and> r \<in> set data_resp \<and> i = Date (r_time r) \<and> cs = ohlcv_cells r)"
  proof (clarify, intro conjI)
    fix i cs
    assume mem: "(i, cs) \<in> set ?w"
    then show "\<exists>r. find (\<lambda>r. r_time r = index_date i) (sort_by ties r_time data_resp) = Some r
               \<and> r \<in> set data_resp \<and> i = Date (r_time r) \<and> cs = ohlcv_cells r"
      by (rule row)
    have "distinct (map r_time ?f)"
      using strict by (simp add: strict_sorted_iff sorted_wrt_map [symmetric])
    then have "distinct (map fst ?w)"
      by (simp add: wrangle_ohlcv_resp_rows comp_def distinct_map inj_on_def)
    then have "length (filter (\<lambda>p. fst p = i) ?w) = (if i \<in> fst ` set ?w then 1 else 0)"
      by (rule distinct_fst_count)
    moreover have "i \<in> fst ` set ?w"
      using mem by force
    ultimately show "length (filter (\<lambda>(j, ds). j = i) ?w) = 1"
      by (simp add: case_prod_unfold)
  qed
  show "(\<forall>r \<in> set data_resp. \<forall>r' \<in> set data_resp.
          r_time r = r_time r' \<longrightarrow> ohlcv_cells r = ohlcv_cells r')
        \<longrightarrow> (\<forall>(i, cs) \<in> set ?w.
              \<exists>r. find (\<lambda>r. r_time r = index_date i) data_resp = Some r
                  \<and> i = Date (r_time r) \<and> cs = ohlcv_cells r)"
  proof (intro impI, clarify)
    fix i cs
    assume same: "\<forall>r \<in> set data_resp. \<forall>r' \<in> set data_resp.
          r_time r = r_time r' \<longrightarrow> ohlcv_cells r = ohlcv_cells r'"
      and mem: "(i, cs) \<in> set ?w"
    from row [OF mem] obtain r where r: "r \<in> set data_resp" and i: "i = Date (r_time r)"
      and cs: "cs = ohlcv_cells r"
      by blast
    from r have "find (\<lambda>y. r_time y = r_time r) data_resp \<noteq> None"
      by (auto simp: find_None_iff)
    then obtain r' where first: "find (\<lambda>y. r_time y = r_time r) data_resp = Some r'"
      by blast
    then have "r' \<in> set data_resp" and t: "r_time r' = r_time r"
      by (auto simp: find_Some_iff in_set_conv_nth)
    with same r have "ohlcv_cells r' = ohlcv_cells r" by blast
    with first i cs t
    show "\<exists>r. find (\<lambda>r. r_time r = index_date i) data_resp = Some r
              \<and> i = Date (r_time r) \<and> cs = ohlcv_cells r"
      by auto
  qed
qed

text \<open>
  On the two overlapping pages the bar at time 3, present in both with two prices, has
  one row in the table. With a sort that leaves rows with equal dates in the order it
  finds them the row has the cells of the bar fetched first (price 30); with a sort that
  turns that order round it has those of the bar fetched last (price 33). On the pages
  \<open>boundary_pages\<close>, where the bar at time 3 is the same in both, the table is the same
  with either sort.
\<close>

theorem wrangle_ohlcv_resp_strict_witness:
  "rows (wrangle_ohlcv_resp first_fetched window_request overlapping_pages) =
     [(Date 3, [Num 30, Num 31, Num 29, Num 30, Num 7]),
      (Date 4, [Num 40, Num 41, Num 39, Num 40, Num 8])]
   \<and> rows (wrangle_ohlcv_resp last_fetched window_request overlapping_pages) =
     [(Date 3, [Num 33, Num 34, Num 32, Num 33, Num 7]),
      (Date 4, [Num 40, Num 41, Num 39, Num 40, Num 8])]
   \<and> sorted_wrt (<)
       (map (index_date \<circ> fst)
          (rows (wrangle_ohlcv_resp last_fetched window_request overlapping_pages)))
   \<and> map r_time boundary_pages = [3, 4, 5, 1, 2, 3]
   \<and> boundary_pages ! 0 = boundary_pages ! 5
   \<and> rows (wrangle_ohlcv_resp last_fetched window_request boundary_pages) =
     [(Date 2, [Num 20, Num 20, Num 20, Num 20, Num 1]),
      (Date 3, [Num 30, Num 30, Num 30, Num 30, Num 1]),
      (Date 4, [Num 40, Num 40, Num 40, Num 40, Num 1])]
   \<and> rows (wrangle_ohlcv_resp first_fetched window_request boundary_pages) =
      rows (wrangle_ohlcv_resp last_fetched window_request boundary_pages)"
  using wrangle_ohlcv_resp_strict [of first_fetched window_request overlapping_pages]
    wrangle_ohlcv_resp_strict [of last_fetched window_request overlapping_pages]
    wrangle_ohlcv_resp_strict [of last_fetched window_request boundary_pages]
  by (simp add: wrangle_ohlcv_resp_def window_request_def overlapping_pages_def
      boundary_pages_def bar_def ohlcv_cells_def sort_by_def first_fetched_def
      last_fetched_def Let_def)

section \<open>The paginated fetch\<close>

lemmas run_defs = eth_down_def transport_down_def deep_history_def client_def two_ticker_cc_def
  two_ticker_request_def ohlcv_query_def short_page_def full_page_def bar_def Let_def

lemma ohlcv_query_start [simp]:
  "ohlcv_query self (cc\<lparr>cc_start_date := s\<rparr>) ticker to_ts = ohlcv_query self cc ticker to_ts"
  by (simp add: ohlcv_query_def)

lemma ohlcv_loop_ignores_start:
  "ohlcv_loop fuel E self (cc\<lparr>cc_start_date := s\<rparr>) ticker to_ts df0 attempts tr
     = ohlcv_loop fuel E self cc ticker to_ts df0 attempts tr"
proof (induction fuel arbitrary: to_ts df0 attempts tr)
  case 0
  show ?case by simp
next
  case (Suc fuel)
  show ?case
    by (simp add: Suc.IH Let_def split: option.split response.split list.split)
qed

text \<open>
  C3, as the code has it. An iteration of the loop of \<^verbatim>\<open>fetch_ohlcv\<close> that gets a page
  (with attempts left, a pause set and a page size that is not negative) stops exactly
  when the page has fewer than \<^verbatim>\<open>max_obs_per_call + 1\<close> observations, or the close of its
  first observation is zero or not-a-number; otherwise it goes on with the cursor at the
  time of the page's first observation, after one pause, the page appended and the
  attempts as they were. The requested start is not among the conditions: the loop runs
  the same whatever start time the translated request holds.
\<close>

theorem ohlcv_loop_page:
  assumes "cc_trials cc = Some n" and "attempts < n" and "cc_pause cc = Some p"
    and "0 \<le> max_obs_per_call self"
    and "ohlcv_api E (length tr) (ohlcv_query self cc ticker to_ts) = Page data"
  shows "ohlcv_loop (Suc fuel) E self cc ticker to_ts df0 attempts tr =
           (if int (length data) < max_obs_per_call self + 1
               \<or> r_close (hd data) = Num 0 \<or> r_close (hd data) = NaN
            then Some (Inr (df0 @ data), tr @ [Get (ohlcv_query self cc ticker to_ts)])
            else ohlcv_loop fuel E self cc ticker (r_time (hd data)) (df0 @ data) attempts
                   (tr @ [Get (ohlcv_query self cc ticker to_ts), Sleep p]))
         \<and> ohlcv_loop (Suc fuel) E self (cc\<lparr>cc_start_date := s\<rparr>) ticker to_ts df0 attempts tr
           = ohlcv_loop (Suc fuel) E self cc ticker to_ts df0 attempts tr"
proof
  show "ohlcv_loop (Suc fuel) E self cc ticker to_ts df0 attempts tr =
           (if int (length data) < max_obs_per_call self + 1
               \<or> r_close (hd data) = Num 0 \<or> r_close (hd data) = NaN
            then Some (Inr (df0 @ data), tr @ [Get (ohlcv_query self cc ticker to_ts)])
            else ohlcv_loop fuel E self cc ticker (r_time (hd data)) (df0 @ data) attempts
                   (tr @ [Get (ohlcv_query self cc ticker to_ts), Sleep p]))"
  proof (cases data)
    case Nil
    with assms show ?thesis by (simp add: Let_def)
  next
    case (Cons r rest)
    with assms show ?thesis by (simp add: Let_def)
  qed
next
  show "ohlcv_loop (Suc fuel) E self (cc\<lparr>cc_start_date := s\<rparr>) ticker to_ts df0 attempts tr
           = ohlcv_loop (Suc fuel) E self cc ticker to_ts df0 attempts tr"
    by (rule ohlcv_loop_ignores_start)
qed

text \<open>
  Two iterations that get a page: a short page from \<open>eth_down\<close> ends the loop; a full
  page from \<open>deep_history\<close> moves the cursor from 100 to 40, the time of its first bar.
\<close>

theorem ohlcv_loop_page_witness:
  "ohlcv_loop 1 eth_down client two_ticker_cc ''BTC'' 100 [] 0 []
     = Some (Inr short_page, [Get (ohlcv_query client two_ticker_cc ''BTC'' 100)])
   \<and> ohlcv_loop 3 deep_history client two_ticker_cc ''BTC'' 100 [] 0 []
     = ohlcv_loop 2 deep_history client two_ticker_cc ''BTC'' 40 full_page 0
         [Get (ohlcv_query client two_ticker_cc ''BTC'' 100), Sleep (1 / 10)]"
  using ohlcv_loop_page [where cc = two_ticker_cc and n = 3 and attempts = 0 and p = "1 / 10"
      and self = client and E = eth_down and tr = "[]" and ticker = "''BTC''" and to_ts = 100
      and data = short_page and fuel = 0 and ?df0.0 = "[]"]
    ohlcv_loop_page [where cc = two_ticker_cc and n = 3 and attempts = 0 and p = "1 / 10"
      and self = client and E = deep_history and tr = "[]" and ticker = "''BTC''"
      and to_ts = 100 and data = full_page and fuel = 2 and ?df0.0 = "[]"]
  by (simp add: run_defs)

text \<open>
  The claim has the loop stop as well once the requested start is reached or passed.
  With the start at 70, \<open>deep_history\<close> answers the call at the cursor 100 with a full
  page that begins at time 40, before the start; the loop goes on and sends a second
  call, at the cursor 40.
\<close>

theorem ohlcv_loop_pages_past_start:
  "cc_start_date (two_ticker_cc\<lparr>cc_start_date := 70\<rparr>) = 70
   \<and> r_time (hd full_page) = 40
   \<and> ohlcv_loop 3 deep_history client (two_ticker_cc\<lparr>cc_start_date := 70\<rparr>) ''BTC'' 100 [] 0 []
     = Some (Inr full_page,
             [Get (ohlcv_query client two_ticker_cc ''BTC'' 100), Sleep (1 / 10),
              Get (ohlcv_query client two_ticker_cc ''BTC'' 40)])"
  by (simp add: run_defs eval_nat_numeral)

lemma ohlcv_loop_all_fail:
  assumes trials: "cc_trials cc = Some n" and pause: "cc_pause cc = Some p" and n3: "n \<le> 3"
    and fail: "\<forall>k. \<exists>mo. ohlcv_api E k (ohlcv_query self cc ticker to_ts) = Status_error mo"
  shows "nat (n - a) < fuel \<Longrightarrow>
         (a < n \<and> n = 3 \<longrightarrow>
            ohlcv_api E (length tr + 3 * nat (2 - a)) (ohlcv_query self cc ticker to_ts)
              = Status_error (Some m)) \<Longrightarrow>
         ohlcv_loop fuel E self cc ticker to_ts df0 a tr =
           Some (Inr df0, tr @ failed_attempts (ohlcv_query self cc ticker to_ts) p ticker a n
                   @ last_warning ticker a n m)"
proof (induction "nat (n - a)" arbitrary: a tr fuel)
  case 0
  then have "\<not> a < n" by simp
  moreover from 0 obtain f where "fuel = Suc f" by (cases fuel) auto
  ultimately show ?case using trials by (simp add: failed_attempts_def last_warning_def)
next
  case (Suc k)
  let ?q = "ohlcv_query self cc ticker to_ts"
  let ?tr2 = "tr @ [Get ?q, Sleep p, Warning (Failed_attempt ticker (a + 1))]"
  from Suc.hyps(2) have lt: "a < n" by simp
  from Suc.prems(1) Suc.hyps(2) obtain f where fuel: "fuel = Suc f"
    and f: "nat (n - (a + 1)) < f"
    by (cases fuel) auto
  have k: "k = nat (n - (a + 1))" using Suc.hyps(2) by simp
  have up: "[a + 1..n] = (a + 1) # [a + 1 + 1..n]"
    using lt by (simp add: upto_rec1)
  from fail obtain mo where answer: "ohlcv_api E (length tr) ?q = Status_error mo"
    by blast
  show ?case
  proof (cases "a + 1 = 3")
    case True
    with lt n3 have n: "n = 3" and a: "a = 2" by simp_all
    with lt Suc.prems(2) have "ohlcv_api E (length tr) ?q = Status_error (Some m)" by simp
    with answer have "mo = Some m" by simp
    with True lt trials pause answer fuel n show ?thesis
      by (simp add: Let_def failed_attempts_def last_warning_def up)
  next
    case False
    have "a + 1 < n \<and> n = 3 \<longrightarrow>
            ohlcv_api E (length ?tr2 + 3 * nat (2 - (a + 1))) ?q = Status_error (Some m)"
    proof
      assume b: "a + 1 < n \<and> n = 3"
      then have ar: "3 * nat (2 - a) = 3 + 3 * nat (2 - (a + 1))" by arith
      have l: "length ?tr2 = length tr + 3" by simp
      from l ar have idx: "length ?tr2 + 3 * nat (2 - (a + 1)) = length tr + 3 * nat (2 - a)"
        by linarith
      from b lt Suc.prems(2)
      have third: "ohlcv_api E (length tr + 3 * nat (2 - a)) ?q = Status_error (Some m)"
        by simp
      show "ohlcv_api E (length ?tr2 + 3 * nat (2 - (a + 1))) ?q = Status_error (Some m)"
        by (simp only: idx third)
    qed
    with k f have "ohlcv_loop f E self cc ticker to_ts df0 (a + 1) ?tr2 =
          Some (Inr df0, ?tr2 @ failed_attempts ?q p ticker (a + 1) n
                   @ last_warning ticker (a + 1) n m)"
      by (rule Suc.hyps(1))
    moreover have "last_warning ticker (a + 1) n m = last_warning ticker a n m"
      using False lt by (auto simp: last_warning_def)
    ultimately show ?thesis
      using False lt trials pause answer fuel
      by (simp add: Let_def failed_attempts_def up)
  qed
qed

text \<open>
  C2, as the code has it, for a request with \<open>n\<close> trials and a pause. The loop of one
  ticker is taken in any state: at the cursor \<open>to_ts\<close>, with the rows \<open>df0\<close> of the pages
  gathered before and \<open>a\<close> attempts already failed (the attempts are counted over all
  the pages of the ticker), and with a bound on the iterations above the attempts left.

  First: when \<open>n\<close> is at most three and the vendor answers every call at this cursor
  with an error status, the answer to the third attempt, if it comes to one, carrying a
  message \<open>m\<close> (a failed attempt adds three effects to the trace, so the third
  attempt is the call sent after \<open>3 * (2 - a)\<close> more effects), the loop sends a call
  for each attempt left, all with this cursor, each followed by a pause and a warning;
  it then ends without an exception, with the rows gathered before (none, when the first
  page of the ticker fails). Second: when the next call fails in transport, it is not
  retried; the loop ends after that one call, with the rows gathered before. Third:
  whenever the loop of a ticker ends without an exception, the remaining tickers are
  fetched: into the frame gathered so far when the ticker has no row, else into that
  frame with the ticker's normalised rows appended.
\<close>

theorem ohlcv_tickers_retry_then_skip:
  assumes trials: "cc_trials cc = Some n" and pause: "cc_pause cc = Some p"
    and fuel: "nat (n - a) < fuel"
  shows "(n \<le> 3
          \<and> (\<forall>k. \<exists>mo. ohlcv_api E k (ohlcv_query self cc ticker to_ts) = Status_error mo)
          \<and> (a < n \<and> n = 3 \<longrightarrow>
                ohlcv_api E (length tr + 3 * nat (2 - a)) (ohlcv_query self cc ticker to_ts)
                  = Status_error (Some m))
          \<longrightarrow> ohlcv_loop fuel E self cc ticker to_ts df0 a tr
              = Some (Inr df0,
                      tr @ failed_attempts (ohlcv_query self cc ticker to_ts) p ticker a n
                         @ last_warning ticker a n m))
       \<and> (a < n \<and> ohlcv_api E (length tr) (ohlcv_query self cc ticker to_ts) = Transport_error
          \<longrightarrow> ohlcv_loop fuel E self cc ticker to_ts df0 a tr
              = Some (Inr df0,
                      tr @ [Get (ohlcv_query self cc ticker to_ts),
                            Warning Caught_exception, Warning Format_changed]))
       \<and> (ohlcv_loop fuel E self cc ticker (cc_end_date cc) [] 0 tr0 = Some (Inr acc, tr1)
          \<longrightarrow> ohlcv_tickers fuel E self data_req cc (ticker # rest) df tr0
              = ohlcv_tickers fuel E self data_req cc rest
                  (if acc = [] then df
                   else concat_rows df
                          (if length (tickers data_req) > 1
                           then set_index_date_ticker E ticker
                                  (wrangle_ohlcv_resp (date_ties E) data_req acc)
                           else wrangle_ohlcv_resp (date_ties E) data_req acc))
                  tr1)"
proof (intro conjI impI)
  assume "n \<le> 3
          \<and> (\<forall>k. \<exists>mo. ohlcv_api E k (ohlcv_query self cc ticker to_ts) = Status_error mo)
          \<and> (a < n \<and> n = 3 \<longrightarrow>
                ohlcv_api E (length tr + 3 * nat (2 - a)) (ohlcv_query self cc ticker to_ts)
                  = Status_error (Some m))"
  then have n3: "n \<le> 3"
    and fail: "\<forall>k. \<exists>mo. ohlcv_api E k (ohlcv_query self cc ticker to_ts) = Status_error mo"
    and msg: "a < n \<and> n = 3 \<longrightarrow>
                ohlcv_api E (length tr + 3 * nat (2 - a)) (ohlcv_query self cc ticker to_ts)
                  = Status_error (Some m)"
    by simp_all
  from trials pause n3 fail fuel msg
  show "ohlcv_loop fuel E self cc ticker to_ts df0 a tr
          = Some (Inr df0,
                  tr @ failed_attempts (ohlcv_query self cc ticker to_ts) p ticker a n
                     @ last_warning ticker a n m)"
    by (rule ohlcv_loop_all_fail)
next
  assume a: "a < n \<and> ohlcv_api E (length tr) (ohlcv_query self cc ticker to_ts)
                       = Transport_error"
  from fuel obtain f where "fuel = Suc f" by (cases fuel) auto
  with a trials show "ohlcv_loop fuel E self cc ticker to_ts df0 a tr
          = Some (Inr df0,
                  tr @ [Get (ohlcv_query self cc ticker to_ts),
                        Warning Caught_exception, Warning Format_changed])"
    by (simp add: Let_def)
next
  assume "ohlcv_loop fuel E self cc ticker (cc_end_date cc) [] 0 tr0 = Some (Inr acc, tr1)"
  then show "ohlcv_tickers fuel E self data_req cc (ticker # rest) df tr0
              = ohlcv_tickers fuel E self data_req cc rest
                  (if acc = [] then df
                   else concat_rows df
                          (if length (tickers data_req) > 1
                           then set_index_date_ticker E ticker
                                  (wrangle_ohlcv_resp (date_ties E) data_req acc)
                           else wrangle_ohlcv_resp (date_ties E) data_req acc))
                  tr1"
    by (simp add: Let_def)
qed

text \<open>
  With three trials, \<open>eth_down\<close> gets three calls for ETH, all at the cursor 100, and
  then one for BTC, whose two bars are the table returned. \<open>page_two_down\<close> answers the
  first call for BTC with a full page and gets three calls at the next cursor, 40; the
  loop ends with the rows of the first page, and they are the table returned.
  \<open>transport_down\<close> gets one call for ETH.
\<close>

theorem ohlcv_tickers_retry_then_skip_witness:
  "map_option (\<lambda>(r, tr). (r, map q_fsym (paged_calls tr), map q_toTs (paged_calls tr)))
     (ohlcv_tickers 4 eth_down client two_ticker_request two_ticker_cc [''ETH'', ''BTC'']
        DataFrame [])
     = Some (Inr \<lparr> columns = ohlcv_fields,
                   rows = [(Date_ticker 90 ''BTC'', [Num 5, Num 5, Num 5, Num 5, Num 1]),
                           (Date_ticker 100 ''BTC'', [Num 6, Num 6, Num 6, Num 6, Num 1])] \<rparr>,
             [''ETH'', ''ETH'', ''ETH'', ''BTC''], [100, 100, 100, 100])
   \<and> ohlcv_loop 4 page_two_down client two_ticker_cc ''BTC'' 40 full_page 0
       [Get (ohlcv_query client two_ticker_cc ''BTC'' 100), Sleep (1 / 10)]
     = Some (Inr full_page,
             [Get (ohlcv_query client two_ticker_cc ''BTC'' 100), Sleep (1 / 10),
              Get (ohlcv_query client two_ticker_cc ''BTC'' 40), Sleep (1 / 10),
              Warning (Failed_attempt ''BTC'' 1),
              Get (ohlcv_query client two_ticker_cc ''BTC'' 40), Sleep (1 / 10),
              Warning (Failed_attempt ''BTC'' 2),
              Get (ohlcv_query client two_ticker_cc ''BTC'' 40), Sleep (1 / 10),
              Warning (Failed_attempt ''BTC'' 3),
              Warning (Failed_many ''BTC'' ''rate limit'')])
   \<and> map_option (\<lambda>(r, tr). (r, map q_fsym (paged_calls tr), map q_toTs (paged_calls tr)))
       (ohlcv_tickers 5 page_two_down client two_ticker_request two_ticker_cc [''BTC'']
          DataFrame [])
     = Some (Inr \<lparr> columns = ohlcv_fields,
                   rows = [(Date_ticker 40 ''BTC'', [Num 4, Num 4, Num 4, Num 4, Num 1]),
                           (Date_ticker 50 ''BTC'', [Num 5, Num 5, Num 5, Num 5, Num 1]),
                           (Date_ticker 60 ''BTC'', [Num 6, Num 6, Num 6, Num 6, Num 1])] \<rparr>,
             [''BTC'', ''BTC'', ''BTC'', ''BTC''], [100, 40, 40, 40])
   \<and> ohlcv_tickers 4 transport_down client two_ticker_request two_ticker_cc [''ETH''] DataFrame []
     = Some (Inr DataFrame,
             [Get (ohlcv_query client two_ticker_cc ''ETH'' 100),
              Warning Caught_exception, Warning Format_changed])"
  using ohlcv_tickers_retry_then_skip [where cc = two_ticker_cc and n = 3 and p = "1 / 10"
      and a = 0 and fuel = 4 and E = eth_down and self = client and ticker = "''ETH''"
      and to_ts = 100 and m = "''rate limit''"
      and ?df0.0 = "[]" and tr = "[]" and ?tr0.0 = "[]" and acc = "[]"
      and ?tr1.0 = "failed_attempts (ohlcv_query client two_ticker_cc ''ETH'' 100) (1 / 10)
                     ''ETH'' 0 3 @ last_warning ''ETH'' 0 3 ''rate limit''"
      and data_req = two_ticker_request and rest = "[''BTC'']" and df = DataFrame]
    ohlcv_tickers_retry_then_skip [where cc = two_ticker_cc and n = 3 and p = "1 / 10"
      and a = 0 and fuel = 4 and E = page_two_down and self = client and ticker = "''BTC''"
      and to_ts = 40 and m = "''rate limit''"
      and ?df0.0 = full_page
      and tr = "[Get (ohlcv_query client two_ticker_cc ''BTC'' 100), Sleep (1 / 10)]"]
    ohlcv_tickers_retry_then_skip [where cc = two_ticker_cc and n = 3 and p = "1 / 10"
      and a = 0 and fuel = 4 and E = transport_down and self = client and ticker = "''ETH''"
      and to_ts = 100 and ?df0.0 = "[]" and tr = "[]" and ?tr0.0 = "[]" and acc = "[]"
      and ?tr1.0 = "[Get (ohlcv_query client two_ticker_cc ''ETH'' 100),
                     Warning Caught_exception, Warning Format_changed]"
      and data_req = two_ticker_request and rest = "[]" and df = DataFrame]
  by (simp add: run_defs eval_nat_numeral failed_attempts_def last_warning_def
      wrangle_ohlcv_resp_def ohlcv_cells_def set_index_date_ticker_def sort_pairs_def
      sort_by_def first_fetched_def concat_rows_def reindex_columns_def DataFrame_def
      ohlcv_fields_def page_two_down_def)

text \<open>
  Against the claim as stated: with three trials a call that fails in transport is sent
  once, not three times; with five trials a call answered with an error status is sent
  three times, not five; and when the answer to the third attempt for ETH carries no
  message, the fetch of both tickers ends in \<^verbatim>\<open>KeyError\<close> after the three calls for ETH,
  with no call for BTC.
\<close>

theorem ohlcv_loop_retry_counterexample:
  "cc_trials two_ticker_cc = Some 3
   \<and> ohlcv_loop 4 transport_down client two_ticker_cc ''BTC'' 100 [] 0 []
     = Some (Inr [], [Get (ohlcv_query client two_ticker_cc ''BTC'' 100),
                      Warning Caught_exception, Warning Format_changed])
   \<and> map_option (\<lambda>(r, tr). (r, length (paged_calls tr)))
       (ohlcv_loop 6 eth_down client (two_ticker_cc\<lparr>cc_trials := Some 5\<rparr>) ''ETH'' 100 [] 0 [])
     = Some (Inr [], 3)
   \<and> map_option (\<lambda>(r, tr). (r, map q_fsym (paged_calls tr)))
       (ohlcv_tickers 4 eth_silent client two_ticker_request two_ticker_cc [''ETH'', ''BTC'']
          DataFrame [])
     = Some (Inl KeyError, [''ETH'', ''ETH'', ''ETH''])"
  by (simp add: run_defs eth_silent_def eval_nat_numeral)

section \<open>Routing and merging\<close>

lemmas router_defs = fetch_data_def gather_def fetch_ohlcv_def fetch_onchain_def try_concat_def
  concat_columns_def no_shape_def df_empty_def loc_columns_def get_fields_def get_data_def
  py_getitem_def latest_body_def convert_data_req_params_def last3_def upper_def upper_char_def
  convert_datetime_to_unix_tmsp_def date_2010_01_01_def btc_request_def btc_cc_def
  catalog_call_def catalog_fields_list_def onchain_query_def onchain_page_def
  wrangle_ohlcv_resp_def wrangle_onchain_resp_def metric_columns_def ohlcv_cells_def
  set_index_date_ticker_def sort_index_def sort_pairs_def sort_by_def first_fetched_def
  concat_rows_def reindex_columns_def DataFrame_def ohlcv_fields_def iloc0_all_zero_def
  iloc0_all_nan_def

lemma wrangle_ohlcv_resp_columns:
  "columns (wrangle_ohlcv_resp ties data_req data_resp) = ohlcv_fields"
  by (simp add: wrangle_ohlcv_resp_def Let_def)

lemma set_index_date_ticker_columns: "columns (set_index_date_ticker E ticker df) = columns df"
  by (simp add: set_index_date_ticker_def Let_def)

lemma concat_rows_columns:
  "set (columns (concat_rows df df1)) = set (columns df) \<union> set (columns df1)"
  by (auto simp: concat_rows_def Let_def)

lemma ohlcv_tickers_columns:
  "ohlcv_tickers fuel E self data_req cc ts df tr = Some (Inr df', tr') \<Longrightarrow>
   set (columns df) \<subseteq> set ohlcv_fields \<Longrightarrow> set (columns df') \<subseteq> set ohlcv_fields"
proof (induction ts arbitrary: df tr)
  case Nil
  then show ?case by simp
next
  case (Cons ticker rest)
  from Cons.prems(1) obtain r tr1 where
    loop: "ohlcv_loop fuel E self cc ticker (cc_end_date cc) [] 0 tr = Some (r, tr1)"
    by (cases "ohlcv_loop fuel E self cc ticker (cc_end_date cc) [] 0 tr") auto
  show ?case
  proof (cases r)
    case (Inl err)
    with loop Cons.prems(1) show ?thesis by simp
  next
    case (Inr df0)
    show ?thesis
    proof (cases "df0 = []")
      case True
      with loop Inr Cons.prems(1)
      have "ohlcv_tickers fuel E self data_req cc rest df tr1 = Some (Inr df', tr')" by simp
      then show ?thesis using Cons.prems(2) by (rule Cons.IH)
    next
      case False
      let ?df1 = "wrangle_ohlcv_resp (date_ties E) data_req df0"
      let ?df2 = "if length (tickers data_req) > 1 then set_index_date_ticker E ticker ?df1
                  else ?df1"
      from False loop Inr Cons.prems(1)
      have run: "ohlcv_tickers fuel E self data_req cc rest (concat_rows df ?df2) tr1
                  = Some (Inr df', tr')"
        by (simp add: Let_def)
      have "columns ?df2 = ohlcv_fields"
        by (simp add: wrangle_ohlcv_resp_columns set_index_date_ticker_columns)
      with Cons.prems(2) have "set (columns (concat_rows df ?df2)) \<subseteq> set ohlcv_fields"
        by (simp add: concat_rows_columns)
      with run show ?thesis by (rule Cons.IH)
    qed
  qed
qed

lemma fetch_ohlcv_columns:
  "fetch_ohlcv fuel E self data_req tr = Some (Inr df, tr') \<Longrightarrow>
   set (columns df) \<subseteq> set ohlcv_fields"
  by (auto simp: fetch_ohlcv_def DataFrame_def split: sum.splits dest: ohlcv_tickers_columns)

lemma concat_columns_DataFrame: "concat_columns DataFrame df0 = Inr (if no_shape df0 then DataFrame else df0)"
  by (simp add: concat_columns_def no_shape_def DataFrame_def)

lemma try_concat_first:
  "try_concat DataFrame (fetch_ohlcv fuel E self data_req tr) = Some (df, tr') \<Longrightarrow>
   set (columns df) \<subseteq> set ohlcv_fields"
proof -
  assume run: "try_concat DataFrame (fetch_ohlcv fuel E self data_req tr) = Some (df, tr')"
  then obtain r tr0 where fetched: "fetch_ohlcv fuel E self data_req tr = Some (r, tr0)"
    by (cases "fetch_ohlcv fuel E self data_req tr") (auto simp: try_concat_def)
  show ?thesis
  proof (cases r)
    case (Inl err)
    with run fetched have "df = DataFrame" by (simp add: try_concat_def)
    then show ?thesis by (simp add: DataFrame_def)
  next
    case (Inr df0)
    with run fetched have "df = (if no_shape df0 then DataFrame else df0)"
      by (simp add: try_concat_def concat_columns_DataFrame)
    moreover from fetched Inr have "set (columns df0) \<subseteq> set ohlcv_fields"
      by (auto dest: fetch_ohlcv_columns)
    ultimately show ?thesis by (simp add: DataFrame_def)
  qed
qed

text \<open>The clock readings touch the end date only.\<close>

lemma convert_clock:
  "convert_data_req_params t u data_req = Inr cc \<Longrightarrow>
   \<exists>cc'. convert_data_req_params t' u' data_req = Inr cc'
        \<and> cc_frequency cc' = cc_frequency cc \<and> cc_fields cc' = cc_fields cc"
  by (auto simp: convert_data_req_params_def Let_def split: if_splits)

lemma fetch_onchain_not_daily:
  assumes "convert_data_req_params t u data_req = Inr cc" and "cc_frequency cc \<noteq> ''histoday''"
  shows "fetch_onchain fuel E self data_req tr = Some (Inl Onchain_daily_only, tr)"
proof -
  from convert_clock [OF assms(1)] obtain cc' where
    "convert_data_req_params (clock_now E (length tr)) (clock_utcnow E (length tr)) data_req = Inr cc'"
    and "cc_frequency cc' = cc_frequency cc"
    by blast
  with assms(2) show ?thesis by (simp add: fetch_onchain_def)
qed

lemma paged_calls_append: "paged_calls (tr @ tr') = paged_calls tr @ paged_calls tr'"
  by (induction tr rule: paged_calls.induct) simp_all

lemma get_data_paged: "get_data E url what tr = (r, tr1) \<Longrightarrow> paged_calls tr1 = paged_calls tr"
  by (auto simp: get_data_def Let_def paged_calls_append split: reply.splits sum.splits if_splits)

lemma get_fields_paged: "get_fields E tr = (r, tr1) \<Longrightarrow> paged_calls tr1 = paged_calls tr"
  by (auto simp: get_fields_def split: prod.splits sum.splits json.splits dest: get_data_paged)

lemma loc_columns_missing:
  "g \<in> set labels \<Longrightarrow> g \<notin> set (columns df) \<Longrightarrow> loc_columns labels df = Inl KeyError"
  by (auto simp: loc_columns_def list_all_iff)

lemma loc_columns_not_empty:
  assumes "loc_columns labels df = Inr df'" and "\<not> df_empty df" and "labels \<noteq> []"
  shows "\<not> df_empty df'"
proof -
  from assms(1) have all: "list_all (\<lambda>l. l \<in> set (columns df)) labels"
    and df': "df' = \<lparr> columns = concat (map (\<lambda>l. filter (\<lambda>c. c = l) (columns df)) labels),
              rows = map (\<lambda>(i, cs).
                        (i, concat (map (\<lambda>l. map snd (filter (\<lambda>(c, v). c = l)
                                                     (zip (columns df) cs))) labels)))
                       (rows df) \<rparr>"
    by (auto simp: loc_columns_def split: if_splits)
  from assms(3) obtain l ls where labels: "labels = l # ls" by (cases labels) auto
  with all have "l \<in> set (columns df)" by simp
  then have "filter (\<lambda>c. c = l) (columns df) \<noteq> []"
    by (simp add: filter_empty_conv)
  with labels have "columns df' \<noteq> []" by (simp add: df')
  moreover from assms(2) have "rows df' \<noteq> []" by (simp add: df' df_empty_def)
  ultimately show ?thesis by (simp add: df_empty_def)
qed

lemma sort_index_not_empty: "sort_index E df = Inr df' \<Longrightarrow> df_empty df' = df_empty df"
  by (auto simp: sort_index_def sort_pairs_def df_empty_def sort_by_Nil_iff split: if_splits)

text \<open>
  When both fetches yield data: with one ticker the price table is indexed by date and
  the on-chain table by \<^verbatim>\<open>(date, ticker)\<close>, the merged index holds entries of both kinds
  and the last \<^verbatim>\<open>sort_index\<close> raises \<^verbatim>\<open>TypeError\<close>; with two tickers both tables are
  indexed by \<^verbatim>\<open>(date, ticker)\<close> and the merged table is returned.
\<close>

lemma fetch_data_both_kinds_one_ticker:
  "fetch_data 2 (eth_down\<lparr>onchain_api := (\<lambda>k q. Page onchain_page)\<rparr>) client
       (btc_request\<lparr>req_fields := [''close'', ''new_addresses'']\<rparr>) []
     = Some (Inl TypeError,
             [catalog_call, Get (ohlcv_query client btc_cc ''BTC'' 100), catalog_call,
              Get (onchain_query client ''BTC'' 100)])"
  by (simp add: run_defs router_defs cells_at_def eval_nat_numeral)

lemma fetch_data_both_kinds_two_tickers:
  "fetch_data 2 (zero_closes\<lparr>ohlcv_api := (\<lambda>k q. Page [bar 100 7])\<rparr>) client
       (two_ticker_request\<lparr>req_fields := [''close'', ''new_addresses'']\<rparr>) []
     = Some (Inr \<lparr> columns = [''close'', ''new_addresses''],
                   rows = [(Date_ticker 100 ''BTC'', [Num 7, Num 5]),
                           (Date_ticker 100 ''ETH'', [Num 7, Num 5])] \<rparr>,
             [catalog_call, Get (ohlcv_query client two_ticker_cc ''ETH'' 100),
              Get (ohlcv_query client two_ticker_cc ''BTC'' 100), catalog_call,
              Get (onchain_query client ''ETH'' 100), Get (onchain_query client ''BTC'' 100)])"
  by (simp add: run_defs router_defs zero_closes_def cells_at_def eval_nat_numeral)

lemma gather_no_fields:
  assumes "gather fuel E self data_req cc fl tr1 = Some (df, tr3)" and "cc_fields cc = []"
  shows "df = DataFrame"
  using assms by (simp add: gather_def)

text \<open>
  C5. Whenever \<^verbatim>\<open>fetch_data\<close> returns a table, the table is not empty (it has a row and a
  column); and when the requested fields are in the catalog and the two fetches leave an
  empty frame, \<^verbatim>\<open>fetch_data\<close> raises its "check data request parameters" exception.
\<close>

theorem fetch_data_never_empty:
  "(fetch_data fuel E self data_req tr = Some (Inr df, tr') \<longrightarrow> \<not> df_empty df)
   \<and> (convert_data_req_params (clock_now E (length tr)) (clock_utcnow E (length tr)) data_req
         = Inr cc
       \<and> get_fields E tr = (Inr fields_list, tr1)
       \<and> list_all (\<lambda>i. i \<in> set fields_list) (cc_fields cc)
       \<and> gather fuel E self data_req cc fields_list tr1 = Some (df0, tr3)
       \<and> df_empty df0
       \<longrightarrow> fetch_data fuel E self data_req tr = Some (Inl Check_data_request, tr3))"
proof (intro conjI impI)
  assume ret: "fetch_data fuel E self data_req tr = Some (Inr df, tr')"
  then obtain cc where conv:
    "convert_data_req_params (clock_now E (length tr)) (clock_utcnow E (length tr)) data_req = Inr cc"
    by (auto simp: fetch_data_def split: sum.splits)
  from ret conv obtain fl tr1 where cat: "get_fields E tr = (Inr fl, tr1)"
    by (auto simp: fetch_data_def split: sum.splits prod.splits)
  from ret conv cat have avail: "list_all (\<lambda>i. i \<in> set fl) (cc_fields cc)"
    by (auto simp: fetch_data_def split: if_splits)
  from ret conv cat avail obtain g tr3 where g: "gather fuel E self data_req cc fl tr1 = Some (g, tr3)"
    by (auto simp: fetch_data_def split: option.splits)
  from ret conv cat avail g have ne: "\<not> df_empty g"
    by (auto simp: fetch_data_def split: if_splits)
  from ret conv cat avail g ne obtain p where p: "loc_columns (cc_fields cc) g = Inr p"
    by (auto simp: fetch_data_def split: sum.splits)
  from ret conv cat avail g ne p obtain q where
    q: "(if length (tickers data_req) > 1 then sort_index E p else Inr p) = Inr q"
    and df: "sort_index E q = Inr df"
    by (auto simp: fetch_data_def split: sum.splits)
  from q have pq: "df_empty q = df_empty p"
    by (auto dest: sort_index_not_empty split: if_splits)
  from df have qdf: "df_empty df = df_empty q"
    by (rule sort_index_not_empty)
  have "cc_fields cc \<noteq> []"
  proof
    assume "cc_fields cc = []"
    with g have "g = DataFrame" by (rule gather_no_fields)
    with ne show False by (simp add: df_empty_def DataFrame_def)
  qed
  with p ne have "\<not> df_empty p" by (rule loc_columns_not_empty)
  then show "\<not> df_empty df" by (simp add: pq qdf)
next
  assume "convert_data_req_params (clock_now E (length tr)) (clock_utcnow E (length tr)) data_req
         = Inr cc
       \<and> get_fields E tr = (Inr fields_list, tr1)
       \<and> list_all (\<lambda>i. i \<in> set fields_list) (cc_fields cc)
       \<and> gather fuel E self data_req cc fields_list tr1 = Some (df0, tr3)
       \<and> df_empty df0"
  then show "fetch_data fuel E self data_req tr = Some (Inl Check_data_request, tr3)"
    by (simp add: fetch_data_def)
qed


text \<open>
  \<open>eth_down\<close> has a short page for BTC: the table returned has two rows.
  \<open>transport_down\<close> has no price page: the request for the close ends in the exception.
\<close>

theorem fetch_data_never_empty_witness:
  "fetch_data 2 eth_down client btc_request []
     = Some (Inr \<lparr> columns = [''close''], rows = [(Date 90, [Num 5]), (Date 100, [Num 6])] \<rparr>,
             [catalog_call, Get (ohlcv_query client btc_cc ''BTC'' 100)])
   \<and> \<not> df_empty \<lparr> columns = [''close''], rows = [(Date 90, [Num 5]), (Date 100, [Num 6])] \<rparr>
   \<and> fetch_data 2 transport_down client btc_request []
     = Some (Inl Check_data_request,
             [catalog_call, Get (ohlcv_query client btc_cc ''BTC'' 100),
              Warning Caught_exception, Warning Format_changed])"
  using fetch_data_never_empty [where fuel = 2 and E = eth_down and self = client
      and data_req = btc_request and tr = "[]"
      and df = "\<lparr> columns = [''close''], rows = [(Date 90, [Num 5]), (Date 100, [Num 6])] \<rparr>"
      and tr' = "[catalog_call, Get (ohlcv_query client btc_cc ''BTC'' 100)]"
      and cc = btc_cc and fields_list = catalog_fields_list and ?tr1.0 = "[catalog_call]"
      and ?df0.0 = DataFrame
      and ?tr3.0 = "[catalog_call, Get (ohlcv_query client btc_cc ''BTC'' 100)]"]
    fetch_data_never_empty [where fuel = 2 and E = transport_down and self = client
      and data_req = btc_request and tr = "[]" and cc = btc_cc
      and fields_list = catalog_fields_list and ?tr1.0 = "[catalog_call]"
      and ?df0.0 = DataFrame
      and ?tr3.0 = "[catalog_call, Get (ohlcv_query client btc_cc ''BTC'' 100),
              Warning Caught_exception, Warning Format_changed]"]
  by (simp add: run_defs router_defs eval_nat_numeral)

lemma try_concat_yields_data:
  "yields_data r \<Longrightarrow> no_shape df \<Longrightarrow> try_concat df (Some (r, tr)) = Some (projr r, tr)"
  by (cases r) (auto simp: yields_data_def try_concat_def concat_columns_def no_shape_def
      df_empty_def)

lemma try_concat_yields_nothing:
  "yields_nothing r \<Longrightarrow> try_concat df (Some (r, tr)) = Some (df, tr @ caught_warning r)"
  by (cases r) (auto simp: yields_nothing_def try_concat_def concat_columns_def caught_warning_def)

lemma yields_data_caught: "yields_data r \<Longrightarrow> caught_warning r = []"
  by (cases r) (auto simp: yields_data_def caught_warning_def)

text \<open>
  C10, as the code has it. The request names a price field \<open>p\<close> and an on-chain field
  \<open>g\<close> (a catalog field that is not one of the five price columns), and both fetches
  end. If the price fetch yields data (a table that is not empty) and the on-chain fetch
  raises or returns \<^verbatim>\<open>pd.DataFrame()\<close> as it was created, with no column, or the other
  way round (the on-chain table having no column named \<open>p\<close>), then \<^verbatim>\<open>fetch_data\<close> ends in
  the \<^verbatim>\<open>KeyError\<close> of its projection, not in the table of the one kind. A fetch that
  returns a table with its columns and no row is not among these cases.
\<close>

theorem fetch_data_one_kind_KeyError:
  assumes conv: "convert_data_req_params (clock_now E (length tr)) (clock_utcnow E (length tr))
                   data_req = Inr cc"
    and cat: "get_fields E tr = (Inr fields_list, tr1)"
    and avail: "list_all (\<lambda>i. i \<in> set fields_list) (cc_fields cc)"
    and price: "p \<in> set (cc_fields cc)" "p \<in> set (take 5 fields_list)"
    and onchain: "g \<in> set (cc_fields cc)" "g \<in> set (drop 5 fields_list)" "g \<notin> set ohlcv_fields"
    and fetched0: "fetch_ohlcv fuel E self data_req tr1 = Some (r0, tr2)"
    and fetched1: "fetch_onchain fuel E self data_req (tr2 @ caught_warning r0) = Some (r1, tr3)"
    and one: "(yields_data r0 \<and> yields_nothing r1)
              \<or> (yields_nothing r0 \<and> yields_data r1 \<and> p \<notin> set (columns (projr r1)))"
  shows "fetch_data fuel E self data_req tr = Some (Inl KeyError, tr3 @ caught_warning r1)"
proof -
  have ex0: "list_ex (\<lambda>i. i \<in> set (take 5 fields_list)) (cc_fields cc)"
    using price by (auto simp: list_ex_iff)
  have ex1: "list_ex (\<lambda>i. i \<in> set (drop 5 fields_list)) (cc_fields cc)"
    using onchain by (auto simp: list_ex_iff)
  from one show ?thesis
  proof
    assume a: "yields_data r0 \<and> yields_nothing r1"
    then obtain df0 where r0: "r0 = Inr df0" and ne: "\<not> df_empty df0"
      by (cases r0) (auto simp: yields_data_def)
    from a have w0: "caught_warning r0 = []" by (simp add: yields_data_caught)
    have first: "try_concat DataFrame (fetch_ohlcv fuel E self data_req tr1) = Some (df0, tr2)"
      using fetched0 a r0 try_concat_yields_data [of r0 DataFrame tr2]
      by (simp add: no_shape_def DataFrame_def)
    have second: "try_concat df0 (fetch_onchain fuel E self data_req tr2)
                    = Some (df0, tr3 @ caught_warning r1)"
      using fetched1 a w0 by (simp add: try_concat_yields_nothing)
    have g: "gather fuel E self data_req cc fields_list tr1 = Some (df0, tr3 @ caught_warning r1)"
      using ex0 ex1 first second by (simp add: gather_def)
    from fetched0 r0 have "set (columns df0) \<subseteq> set ohlcv_fields"
      by (auto dest: fetch_ohlcv_columns)
    with onchain(3) have "g \<notin> set (columns df0)" by auto
    with onchain(1) have "loc_columns (cc_fields cc) df0 = Inl KeyError"
      by (rule loc_columns_missing)
    with conv cat avail g ne show ?thesis by (simp add: fetch_data_def)
  next
    assume b: "yields_nothing r0 \<and> yields_data r1 \<and> p \<notin> set (columns (projr r1))"
    then obtain df1 where r1: "r1 = Inr df1" and ne: "\<not> df_empty df1"
      by (cases r1) (auto simp: yields_data_def)
    from b have w1: "caught_warning r1 = []" by (simp add: yields_data_caught)
    have first: "try_concat DataFrame (fetch_ohlcv fuel E self data_req tr1)
                   = Some (DataFrame, tr2 @ caught_warning r0)"
      using fetched0 b by (simp add: try_concat_yields_nothing)
    have second: "try_concat DataFrame (fetch_onchain fuel E self data_req (tr2 @ caught_warning r0))
                    = Some (df1, tr3)"
      using fetched1 b r1 try_concat_yields_data [of r1 DataFrame tr3]
      by (simp add: no_shape_def DataFrame_def)
    have g: "gather fuel E self data_req cc fields_list tr1 = Some (df1, tr3)"
      using ex0 ex1 first second by (simp add: gather_def)
    from b r1 have "p \<notin> set (columns df1)" by simp
    with price(1) have "loc_columns (cc_fields cc) df1 = Inl KeyError"
      by (rule loc_columns_missing)
    with conv cat avail g ne w1 show ?thesis by (simp add: fetch_data_def)
  qed
qed

text \<open>
  A daily request for the close and for \<^verbatim>\<open>new_addresses\<close>: \<open>eth_down\<close> has the price
  page and no on-chain page, \<open>transport_down\<close> the on-chain page and no price page; both
  runs end in \<^verbatim>\<open>KeyError\<close>.
\<close>

theorem fetch_data_one_kind_KeyError_witness:
  "fetch_data 2 eth_down client (btc_request\<lparr>req_fields := [''close'', ''new_addresses'']\<rparr>) []
     = Some (Inl KeyError,
             [catalog_call, Get (ohlcv_query client btc_cc ''BTC'' 100), catalog_call,
              Get (onchain_query client ''BTC'' 100), Warning Caught_exception,
              Warning Format_changed])
   \<and> fetch_data 2 transport_down client
       (btc_request\<lparr>req_fields := [''close'', ''new_addresses'']\<rparr>) []
     = Some (Inl KeyError,
             [catalog_call, Get (ohlcv_query client btc_cc ''BTC'' 100), Warning Caught_exception,
              Warning Format_changed, catalog_call, Get (onchain_query client ''BTC'' 100)])"
  using fetch_data_one_kind_KeyError [where E = eth_down and tr = "[]"
      and data_req = "btc_request\<lparr>req_fields := [''close'', ''new_addresses'']\<rparr>"
      and cc = "btc_cc\<lparr>cc_fields := [''close'', ''new_addresses'']\<rparr>"
      and fields_list = catalog_fields_list and ?tr1.0 = "[catalog_call]"
      and p = "''close''" and g = "''new_addresses''" and fuel = 2 and self = client
      and ?r0.0 = "Inr \<lparr> columns = ohlcv_fields,
                          rows = [(Date 90, [Num 5, Num 5, Num 5, Num 5, Num 1]),
                                  (Date 100, [Num 6, Num 6, Num 6, Num 6, Num 1])] \<rparr>"
      and ?tr2.0 = "[catalog_call, Get (ohlcv_query client btc_cc ''BTC'' 100)]"
      and ?r1.0 = "Inr DataFrame"
      and ?tr3.0 = "[catalog_call, Get (ohlcv_query client btc_cc ''BTC'' 100), catalog_call,
              Get (onchain_query client ''BTC'' 100), Warning Caught_exception,
              Warning Format_changed]"]
    fetch_data_one_kind_KeyError [where E = transport_down and tr = "[]"
      and data_req = "btc_request\<lparr>req_fields := [''close'', ''new_addresses'']\<rparr>"
      and cc = "btc_cc\<lparr>cc_fields := [''close'', ''new_addresses'']\<rparr>"
      and fields_list = catalog_fields_list and ?tr1.0 = "[catalog_call]"
      and p = "''close''" and g = "''new_addresses''" and fuel = 2 and self = client
      and ?r0.0 = "Inr DataFrame"
      and ?tr2.0 = "[catalog_call, Get (ohlcv_query client btc_cc ''BTC'' 100),
              Warning Caught_exception, Warning Format_changed]"
      and ?r1.0 = "Inr \<lparr> columns = [''new_addresses'', ''active_addresses''],
                          rows = [(Date_ticker 100 ''BTC'', [Num 5, Num 9])] \<rparr>"
      and ?tr3.0 = "[catalog_call, Get (ohlcv_query client btc_cc ''BTC'' 100),
              Warning Caught_exception, Warning Format_changed, catalog_call,
              Get (onchain_query client ''BTC'' 100)]"]
  by (simp add: run_defs router_defs yields_data_def yields_nothing_def caught_warning_def
      eval_nat_numeral)

text \<open>
  Against the claim as stated: a daily request of two tickers for the close and
  \<^verbatim>\<open>new_addresses\<close>, with \<open>zero_closes\<close>. The price page of each ticker has one bar, whose
  close is zero; the normaliser drops it, and the price fetch returns a table with the
  five price columns and no row: it returns nothing. The on-chain fetch yields a row for
  each ticker. \<^verbatim>\<open>fetch_data\<close> returns the on-chain rows, the close not-a-number in each,
  and raises no \<^verbatim>\<open>KeyError\<close>.
\<close>

theorem fetch_data_returns_one_kind:
  "fetch_ohlcv 2 zero_closes client
       (two_ticker_request\<lparr>req_fields := [''close'', ''new_addresses'']\<rparr>) [catalog_call]
     = Some (Inr \<lparr> columns = ohlcv_fields, rows = [] \<rparr>,
             [catalog_call, Get (ohlcv_query client two_ticker_cc ''ETH'' 100),
              Get (ohlcv_query client two_ticker_cc ''BTC'' 100)])
   \<and> df_empty \<lparr> columns = ohlcv_fields, rows = [] \<rparr>
   \<and> fetch_data 2 zero_closes client
       (two_ticker_request\<lparr>req_fields := [''close'', ''new_addresses'']\<rparr>) []
     = Some (Inr \<lparr> columns = [''close'', ''new_addresses''],
                   rows = [(Date_ticker 100 ''BTC'', [NaN, Num 5]),
                           (Date_ticker 100 ''ETH'', [NaN, Num 5])] \<rparr>,
             [catalog_call, Get (ohlcv_query client two_ticker_cc ''ETH'' 100),
              Get (ohlcv_query client two_ticker_cc ''BTC'' 100), catalog_call,
              Get (onchain_query client ''ETH'' 100), Get (onchain_query client ''BTC'' 100)])"
  by (simp add: run_defs router_defs zero_closes_def cells_at_def eval_nat_numeral)

text \<open>
  C4, as the code has it, for a request whose translation succeeds. \<^verbatim>\<open>fetch_onchain\<close>
  raises at a frequency other than daily before any call, and with no on-chain field
  requested after the catalog call alone, with no paged call and no retry.
  \<^verbatim>\<open>fetch_data\<close> raises for a field outside the catalog after the catalog call alone.
  But the exception \<^verbatim>\<open>fetch_onchain\<close> raises does not leave \<^verbatim>\<open>fetch_data\<close>: it is logged
  as a warning there, after the price fetch if a price field is requested, and
  \<^verbatim>\<open>fetch_data\<close>, when it ends, ends in its own "check data request parameters"
  exception or in the \<^verbatim>\<open>KeyError\<close> of the projection (\<open>g\<close> being a requested on-chain
  field that is not one of the five price columns).
\<close>

theorem configuration_errors:
  assumes conv: "convert_data_req_params (clock_now E (length tr)) (clock_utcnow E (length tr))
                   data_req = Inr cc"
  shows "(cc_frequency cc \<noteq> ''histoday''
            \<longrightarrow> fetch_onchain fuel E self data_req tr = Some (Inl Onchain_daily_only, tr))
       \<and> (cc_frequency cc = ''histoday'' \<and> get_fields E tr = (Inr fields_list, tr1)
            \<and> \<not> list_ex (\<lambda>i. i \<in> set (drop 5 fields_list)) (cc_fields cc)
            \<longrightarrow> fetch_onchain fuel E self data_req tr = Some (Inl Not_onchain_field, tr1)
                \<and> paged_calls tr1 = paged_calls tr)
       \<and> (get_fields E tr = (Inr fields_list, tr1)
            \<and> \<not> list_all (\<lambda>i. i \<in> set fields_list) (cc_fields cc)
            \<longrightarrow> fetch_data fuel E self data_req tr = Some (Inl Fields_not_available, tr1)
                \<and> paged_calls tr1 = paged_calls tr)
       \<and> (cc_frequency cc \<noteq> ''histoday'' \<and> get_fields E tr = (Inr fields_list, tr1)
            \<and> list_all (\<lambda>i. i \<in> set fields_list) (cc_fields cc)
            \<and> g \<in> set (cc_fields cc) \<and> g \<in> set (drop 5 fields_list) \<and> g \<notin> set ohlcv_fields
            \<and> fetch_data fuel E self data_req tr = Some (r, tr')
            \<longrightarrow> (r = Inl Check_data_request \<or> r = Inl KeyError)
                \<and> Warning (Caught Onchain_daily_only) \<in> set tr')"
proof (intro conjI impI)
  assume "cc_frequency cc \<noteq> ''histoday''"
  with conv show "fetch_onchain fuel E self data_req tr = Some (Inl Onchain_daily_only, tr)"
    by (rule fetch_onchain_not_daily)
next
  assume a: "cc_frequency cc = ''histoday'' \<and> get_fields E tr = (Inr fields_list, tr1)
            \<and> \<not> list_ex (\<lambda>i. i \<in> set (drop 5 fields_list)) (cc_fields cc)"
  with conv show "fetch_onchain fuel E self data_req tr = Some (Inl Not_onchain_field, tr1)"
    by (simp add: fetch_onchain_def)
  from a show "paged_calls tr1 = paged_calls tr" by (auto dest: get_fields_paged)
next
  assume a: "get_fields E tr = (Inr fields_list, tr1)
            \<and> \<not> list_all (\<lambda>i. i \<in> set fields_list) (cc_fields cc)"
  with conv show "fetch_data fuel E self data_req tr = Some (Inl Fields_not_available, tr1)"
    by (simp add: fetch_data_def)
  from a show "paged_calls tr1 = paged_calls tr" by (auto dest: get_fields_paged)
next
  assume a: "cc_frequency cc \<noteq> ''histoday'' \<and> get_fields E tr = (Inr fields_list, tr1)
            \<and> list_all (\<lambda>i. i \<in> set fields_list) (cc_fields cc)
            \<and> g \<in> set (cc_fields cc) \<and> g \<in> set (drop 5 fields_list) \<and> g \<notin> set ohlcv_fields
            \<and> fetch_data fuel E self data_req tr = Some (r, tr')"
  then have freq: "cc_frequency cc \<noteq> ''histoday''"
    and cat: "get_fields E tr = (Inr fields_list, tr1)"
    and avail: "list_all (\<lambda>i. i \<in> set fields_list) (cc_fields cc)"
    and g: "g \<in> set (cc_fields cc)" "g \<in> set (drop 5 fields_list)" "g \<notin> set ohlcv_fields"
    and ret: "fetch_data fuel E self data_req tr = Some (r, tr')"
    by simp_all
  have ex1: "list_ex (\<lambda>i. i \<in> set (drop 5 fields_list)) (cc_fields cc)"
    using g by (auto simp: list_ex_iff)
  from ret conv cat avail obtain df tr3 where
    gathered: "gather fuel E self data_req cc fields_list tr1 = Some (df, tr3)"
    by (auto simp: fetch_data_def split: option.splits)
  let ?first = "if list_ex (\<lambda>i. i \<in> set (take 5 fields_list)) (cc_fields cc)
                then try_concat DataFrame (fetch_ohlcv fuel E self data_req tr1)
                else Some (DataFrame, tr1)"
  from gathered obtain df1 tr2 where first: "?first = Some (df1, tr2)"
    by (cases ?first) (auto simp: gather_def)
  have cols: "set (columns df1) \<subseteq> set ohlcv_fields"
  proof (cases "list_ex (\<lambda>i. i \<in> set (take 5 fields_list)) (cc_fields cc)")
    case True
    with first show ?thesis by (auto dest: try_concat_first)
  next
    case False
    with first have "df1 = DataFrame" by simp
    then show ?thesis by (simp add: DataFrame_def)
  qed
  have "fetch_onchain fuel E self data_req tr2 = Some (Inl Onchain_daily_only, tr2)"
    using conv freq by (rule fetch_onchain_not_daily)
  with gathered first ex1
  have df: "df = df1" and tr3: "tr3 = tr2 @ [Warning (Caught Onchain_daily_only)]"
    by (auto simp: gather_def try_concat_def split: if_splits)
  from cols g(3) have "g \<notin> set (columns df)" by (auto simp: df)
  with g(1) have key: "loc_columns (cc_fields cc) df = Inl KeyError"
    by (rule loc_columns_missing)
  from ret conv cat avail gathered key
  have "(r = Inl Check_data_request \<or> r = Inl KeyError) \<and> tr' = tr3"
    by (auto simp: fetch_data_def split: if_splits)
  then show "r = Inl Check_data_request \<or> r = Inl KeyError"
    and "Warning (Caught Onchain_daily_only) \<in> set tr'"
    by (simp_all add: tr3)
qed

text \<open>
  An hourly request for \<^verbatim>\<open>new_addresses\<close> alone: \<^verbatim>\<open>fetch_onchain\<close> raises before any call,
  and \<^verbatim>\<open>fetch_data\<close> logs that and ends in its own exception. A daily request for the
  close: \<^verbatim>\<open>fetch_onchain\<close> raises after the catalog call. A request for a field that is
  not in the catalog: \<^verbatim>\<open>fetch_data\<close> raises after the catalog call.
\<close>

theorem configuration_errors_witness:
  "fetch_onchain 2 eth_down client
       (btc_request\<lparr>freq := ''1h'', req_fields := [''new_addresses'']\<rparr>) []
     = Some (Inl Onchain_daily_only, [])
   \<and> fetch_data 2 eth_down client
       (btc_request\<lparr>freq := ''1h'', req_fields := [''new_addresses'']\<rparr>) []
     = Some (Inl Check_data_request, [catalog_call, Warning (Caught Onchain_daily_only)])
   \<and> fetch_onchain 2 eth_down client btc_request []
     = Some (Inl Not_onchain_field, [catalog_call])
   \<and> fetch_data 2 eth_down client (btc_request\<lparr>req_fields := [''bogus'']\<rparr>) []
     = Some (Inl Fields_not_available, [catalog_call])"
  using configuration_errors [where E = eth_down and tr = "[]"
      and data_req = "btc_request\<lparr>freq := ''1h'', req_fields := [''new_addresses'']\<rparr>"
      and cc = "hourly_cc\<lparr>cc_fields := [''new_addresses'']\<rparr>"
      and fuel = 2 and self = client and fields_list = catalog_fields_list
      and ?tr1.0 = "[catalog_call]" and g = "''new_addresses''"
      and r = "Inl Check_data_request"
      and tr' = "[catalog_call, Warning (Caught Onchain_daily_only)]"]
    configuration_errors [where E = eth_down and tr = "[]" and data_req = btc_request
      and cc = btc_cc and fuel = 2 and self = client and fields_list = catalog_fields_list
      and ?tr1.0 = "[catalog_call]"]
    configuration_errors [where E = eth_down and tr = "[]"
      and data_req = "btc_request\<lparr>req_fields := [''bogus'']\<rparr>"
      and cc = "btc_cc\<lparr>cc_fields := [''bogus'']\<rparr>" and fuel = 2 and self = client
      and fields_list = catalog_fields_list and ?tr1.0 = "[catalog_call]"]
  by (simp add: run_defs router_defs hourly_cc_def eval_nat_numeral)

text \<open>
  Against the claim as stated: an hourly request for the close and \<^verbatim>\<open>new_addresses\<close>. The
  price page is fetched (a paged call) before \<^verbatim>\<open>fetch_onchain\<close> raises; its exception is
  logged, and the caller of \<^verbatim>\<open>fetch_data\<close> gets the \<^verbatim>\<open>KeyError\<close> of the projection.
\<close>

theorem fetch_data_swallows_configuration_error:
  "fetch_data 2 eth_down client
       (btc_request\<lparr>freq := ''1h'', req_fields := [''close'', ''new_addresses'']\<rparr>) []
     = Some (Inl KeyError,
             [catalog_call, Get (ohlcv_query client hourly_cc ''BTC'' 100),
              Warning (Caught Onchain_daily_only)])"
  by (simp add: run_defs router_defs hourly_cc_def eval_nat_numeral)

section \<open>Construction of the catalog\<close>

lemmas catalog_defs = CryptoCompare_init_def default_init_def healthy_def markets_down_def
  assets_down_def eth_down_def and_then_def get_assets_def get_indexes_def get_markets_def
  get_fields_def get_exchanges_def get_rate_limit_def get_data_def py_getitem_def
  catalog_payload_def error_body_def frame_T_index_def ohlcv_fields_def Let_def

text \<open>
  The loop of \<^verbatim>\<open>get_markets\<close> over a list ends without an exception only when the list is
  empty.
\<close>

lemma list_getitem_mem: "list_getitem pairs y = Inr v \<Longrightarrow> v \<in> set pairs"
  by (auto simp: list_getitem_def list_item_def split: json.splits if_splits)

lemma py_getitem_dict: "py_getitem v k = Inr w \<Longrightarrow> is_dict v"
  by (cases v) (auto simp: py_getitem_def)

lemma markets_of_list_None:
  "markets_of_list pairs ys = None \<Longrightarrow> y \<in> set ys \<Longrightarrow>
   \<exists>v. list_getitem pairs y = Inr v \<and> is_dict v \<and> v \<in> set pairs"
proof (induction ys)
  case Nil
  then show ?case by simp
next
  case (Cons z zs)
  from Cons.prems(1) obtain v w where z: "list_getitem pairs z = Inr v"
    and w: "py_getitem v ''tsyms'' = Inr w" and rest: "markets_of_list pairs zs = None"
    by (auto split: sum.splits)
  show ?case
  proof (cases "y = z")
    case True
    with z w show ?thesis by (auto dest: list_getitem_mem py_getitem_dict)
  next
    case False
    with Cons.prems(2) have "y \<in> set zs" by simp
    with rest show ?thesis by (rule Cons.IH)
  qed
qed

lemma markets_of_list_empty: "markets_of_list xs xs = None \<Longrightarrow> xs = []"
proof (rule ccontr)
  assume run: "markets_of_list xs xs = None" and "xs \<noteq> []"
  then obtain y where "y \<in> set xs" by (cases xs) auto
  with run obtain v where "is_dict v" and "v \<in> set xs"
    using markets_of_list_None by blast
  with run obtain u where "list_getitem xs v = Inr u"
    using markets_of_list_None by blast
  with \<open>is_dict v\<close> show False by (cases v) (auto simp: list_getitem_def)
qed

text \<open>
  C8. The claim: a failure to populate any catalog entry does not raise out of the
  construction. With a vendor that answers every catalog call, the construction
  completes. When the vendor answers the markets call with an error status (and the
  empty payload that goes with it), \<^verbatim>\<open>get_markets\<close> logs its warning and then reads
  \<^verbatim>\<open>data_resp['pairs']\<close>: the \<^verbatim>\<open>KeyError\<close> leaves \<^verbatim>\<open>__init__\<close>. The same answer to the assets
  call does leave an empty list of assets, as the claim has it; a call that fails in
  transport raises out of the construction.
\<close>

theorem init_raises_when_markets_call_fails:
  "map_sum id snd (fst (CryptoCompare_init healthy default_init [])) =
     Inr \<lparr> assets = As_list [JStr ''BTC''], indexes = As_list [JStr ''MVDA''],
           markets = [(''BTC'', JArr [JStr ''USD''])],
           catalog_fields = [''open'', ''high'', ''low'', ''close'', ''volume'',
                             ''new_addresses'', ''active_addresses''],
           exchanges = As_list [JStr ''Binance''],
           rate_limit = JObj [(''calls_made'', JObj [(''second'', JNum 1)])] \<rparr>
   \<and> CryptoCompare_init markets_down default_init [] =
       (Inl KeyError,
        [Get_meta ''api/all/coinlist'', Get_meta ''api/index/list'',
         Get_meta ''api/v2/cccagg/pairs'', Warning (Failed_info ''index'')])
   \<and> get_assets assets_down True [] =
       (Inr (As_list []), [Get_meta ''api/all/coinlist'', Warning (Failed_info ''asset'')])
   \<and> CryptoCompare_init (healthy\<lparr>meta_api := (\<lambda>k url. No_reply)\<rparr>) default_init [] =
       (Inl ConnectionError, [Get_meta ''api/all/coinlist''])"
  by (simp add: catalog_defs)

section \<open>Validation in the setters\<close>

text \<open>
  C9. The claim: no setter of \<^verbatim>\<open>DataRequest\<close> stores an invalid value. The setter of
  \<^verbatim>\<open>fields\<close> stores whatever it is given: the integer 5 is stored, by the setter and
  by \<^verbatim>\<open>DataRequest(fields=5)\<close>, where the setters of \<^verbatim>\<open>tickers\<close> and \<^verbatim>\<open>source_fields\<close>
  raise on the same value.
\<close>

theorem fields_setter_stores_any_value:
  "fields_setter (PInt 5) = Inr (PInt 5)
   \<and> map_sum id attr_fields
       (DataRequest_init (\<lambda>s. True) [''UTC''] (default_args\<lparr>attr_fields := PInt 5\<rparr>))
     = Inr (PInt 5)
   \<and> tickers_setter (PInt 5) = Inl Setter_rejected
   \<and> source_fields_setter (PInt 5) = Inl Setter_rejected"
  by (simp add: fields_setter_def tickers_setter_def source_fields_setter_def
      DataRequest_init_def default_args_def assign_def freq_setter_def quote_ccy_setter_def
      exch_setter_def date_setter_def tz_setter_def cat_setter_def trials_setter_def
      pause_setter_def source_tickers_setter_def source_freq_setter_def)

end
